theory Spec2Isabelle
  imports Main "HOL-Library.AList" "HOL-Library.Sublist"
begin

section \<open>Strings, as the service worker uses them\<close>

text \<open>
  The worker (\<^verbatim>\<open>src/unnamed/part_000\<close>) tests URLs with \<^verbatim>\<open>startsWith\<close>,
  \<^verbatim>\<open>endsWith\<close>, \<^verbatim>\<open>includes\<close> and one case-insensitive regular expression. A string
  is a list of characters; the three tests are prefix, suffix and contiguous sublist.
\<close>

definition startsWith :: "string \<Rightarrow> string \<Rightarrow> bool" where
  "startsWith s p = prefix p s"

definition endsWith :: "string \<Rightarrow> string \<Rightarrow> bool" where
  "endsWith s p = suffix p s"

definition str_includes :: "string \<Rightarrow> string \<Rightarrow> bool" where
  "str_includes s p = sublist p s"

text \<open>The \<^verbatim>\<open>/i\<close> flag of a regular expression folds the ASCII letters.\<close>

definition toLowerChar :: "char \<Rightarrow> char" where
  "toLowerChar c =
     (case map_of (zip ''ABCDEFGHIJKLMNOPQRSTUVWXYZ'' ''abcdefghijklmnopqrstuvwxyz'') c of
        None \<Rightarrow> c
      | Some d \<Rightarrow> d)"

subsection \<open>Date.now().toString() and parseInt\<close>

text \<open>
  The freshness marker is written as \<^verbatim>\<open>Date.now().toString()\<close> and read back with
  \<^verbatim>\<open>parseInt\<close>. \<open>toString\<close> is the decimal rendering of an integer. \<open>parseInt\<close>
  follows ECMAScript for a missing radix: leading white space is skipped (a header value
  is a byte string, so the white space is the six ASCII characters and the no-break
  space), one sign is read, a \<^verbatim>\<open>0x\<close> prefix selects radix 16, the longest run of
  digits is the value and an empty run is NaN, here \<open>None\<close>. Numbers are exact
  integers: the worker's timestamps are far below \<open>2 ^ 53\<close>.
\<close>

definition digit_char :: "nat \<Rightarrow> char" where
  "digit_char d = ''0123456789'' ! d"

fun digits :: "nat \<Rightarrow> string" where
  "digits n = (if n < 10 then [digit_char n] else digits (n div 10) @ [digit_char (n mod 10)])"

declare digits.simps [simp del]

definition toString :: "int \<Rightarrow> string" where
  "toString n = (if n < 0 then CHR ''-'' # digits (nat (- n)) else digits (nat n))"

definition digit_value :: "char \<Rightarrow> nat option" where
  "digit_value c =
     map_of [(CHR ''0'', 0), (CHR ''1'', 1), (CHR ''2'', 2), (CHR ''3'', 3), (CHR ''4'', 4),
             (CHR ''5'', 5), (CHR ''6'', 6), (CHR ''7'', 7), (CHR ''8'', 8), (CHR ''9'', 9),
             (CHR ''a'', 10), (CHR ''b'', 11), (CHR ''c'', 12), (CHR ''d'', 13),
             (CHR ''e'', 14), (CHR ''f'', 15)] (toLowerChar c)"

definition is_digit :: "nat \<Rightarrow> char \<Rightarrow> bool" where
  "is_digit radix c = (case digit_value c of None \<Rightarrow> False | Some d \<Rightarrow> d < radix)"

definition digit_of :: "char \<Rightarrow> nat" where
  "digit_of c = (case digit_value c of None \<Rightarrow> 0 | Some d \<Rightarrow> d)"

definition dec_char :: "char \<Rightarrow> bool" where
  "dec_char c = (c \<in> set ''0123456789'')"

definition is_white_space :: "char \<Rightarrow> bool" where
  "is_white_space c =
     (c \<in> set [CHR 0x09, CHR 0x0A, CHR 0x0B, CHR 0x0C, CHR 0x0D, CHR '' '', CHR 0xA0])"

definition parse_digits :: "nat \<Rightarrow> string \<Rightarrow> nat option" where
  "parse_digits radix s =
     (let z = takeWhile (is_digit radix) s
      in if z = [] then None else Some (foldl (\<lambda>acc c. acc * radix + digit_of c) 0 z))"

definition parse_unsigned :: "string \<Rightarrow> nat option" where
  "parse_unsigned s =
     (if startsWith s ''0x'' \<or> startsWith s ''0X'' then parse_digits 16 (drop 2 s)
      else parse_digits 10 s)"

definition parseInt :: "string \<Rightarrow> int option" where
  "parseInt str =
     (let s = dropWhile is_white_space str
      in case s of
           [] \<Rightarrow> None
         | c # rest \<Rightarrow>
             if c = CHR ''-'' then map_option (\<lambda>n. - int n) (parse_unsigned rest)
             else if c = CHR ''+'' then map_option int (parse_unsigned rest)
             else map_option int (parse_unsigned s))"

section \<open>Requests and responses\<close>

text \<open>
  \<open>URL\<close> holds the components of \<^verbatim>\<open>new URL(request.url)\<close> that the worker reads;
  parsing a URL is the platform's work and the components are taken as given.
  \<open>href\<close> is also \<^verbatim>\<open>request.url\<close>, an absolute URL, read without its fragment
  as the Cache API reads it when it compares requests. \<open>method_name\<close> is
  \<^verbatim>\<open>request.method\<close>; the headers of a request are not modelled. A response keeps its status line, its headers
  (names in lower case, as \<^verbatim>\<open>Headers\<close> normalises them) and its body. A response is
  a value here: a clone is the response itself, and the platform's body streams are not
  modelled.
\<close>

record URL =
  href :: string
  hostname :: string
  pathname :: string
  searchParams :: "(string \<times> string) list"

record request =
  url :: URL
  method_name :: string
  destination :: string

record response =
  status :: nat
  statusText :: string
  headers :: "(string \<times> string) list"
  body :: string

definition ok :: "response \<Rightarrow> bool" where
  "ok r = (200 \<le> status r \<and> status r \<le> 299)"

definition headers_get :: "(string \<times> string) list \<Rightarrow> string \<Rightarrow> string option" where
  "headers_get hs name = map_of hs name"

definition headers_set :: "(string \<times> string) list \<Rightarrow> string \<Rightarrow> string \<Rightarrow> (string \<times> string) list" where
  "headers_set hs name v = AList.update name v hs"

subsection \<open>What the Cache API refuses to file\<close>

text \<open>
  \<^verbatim>\<open>cache.put\<close> and \<^verbatim>\<open>cache.addAll\<close> reject with a TypeError a URL whose scheme is
  not http or https, a response of status 206, and a response whose \<^verbatim>\<open>Vary\<close> header
  lists \<^verbatim>\<open>*\<close>. The \<^verbatim>\<open>Vary\<close> value is split at its commas and each field is trimmed.
  A serialised URL has the scheme http or https exactly when it starts with
  \<^verbatim>\<open>http://\<close> or \<^verbatim>\<open>https://\<close>.
\<close>

fun split_on :: "char \<Rightarrow> string \<Rightarrow> string list" where
  "split_on sep [] = [[]]"
| "split_on sep (c # cs) =
     (if c = sep then [] # split_on sep cs
      else (case split_on sep cs of [] \<Rightarrow> [[c]] | w # ws \<Rightarrow> (c # w) # ws))"

definition trim :: "string \<Rightarrow> string" where
  "trim s = rev (dropWhile is_white_space (rev (dropWhile is_white_space s)))"

definition vary_star :: "(string \<times> string) list \<Rightarrow> bool" where
  "vary_star hs =
     (case headers_get hs ''vary'' of
        None \<Rightarrow> False
      | Some v \<Rightarrow> ''*'' \<in> set (map trim (split_on (CHR '','') v)))"

definition is_http_url :: "string \<Rightarrow> bool" where
  "is_http_url u = (startsWith u ''http://'' \<or> startsWith u ''https://'')"

definition put_refused :: "string \<Rightarrow> response \<Rightarrow> bool" where
  "put_refused key r = (\<not> is_http_url key \<or> status r = 206 \<or> vary_star (headers r))"

section \<open>Constants of the worker\<close>

definition STATIC_CACHE_NAME :: string where
  "STATIC_CACHE_NAME = ''crypto-monitor-static-v1.0.1''"

definition DYNAMIC_CACHE_NAME :: string where
  "DYNAMIC_CACHE_NAME = ''crypto-monitor-dynamic-v1.0.1''"

definition API_CACHE_NAME :: string where
  "API_CACHE_NAME = ''crypto-monitor-api-v1.0.1''"

definition STATIC_ASSETS :: "string list" where
  "STATIC_ASSETS =
     [''/'', ''/index.html'', ''/css/styles.css'', ''/js/app.js'', ''/js/modules/api.js'',
      ''/js/modules/portfolio.js'', ''/js/modules/alerts.js'', ''/js/modules/charts.js'',
      ''/js/modules/theme.js'', ''/js/modules/storage.js'', ''/js/modules/notifications.js'',
      ''/js/modules/analytics.js'', ''/js/utils/formatters.js'', ''/js/utils/validators.js'',
      ''/manifest.json'', ''https://cdn.jsdelivr.net/npm/chart.js'',
      ''https://cdn.tailwindcss.com'', ''https://unpkg.com/feather-icons'',
      ''https://fonts.googleapis.com/css2?family=Inter:wght@300;400;500;600;700;800;900&display=swap'',
      ''https://fonts.googleapis.com/css2?family=JetBrains+Mono:wght@400;500;600;700&display=swap'']"

definition API_ENDPOINTS :: "string list" where
  "API_ENDPOINTS =
     [''https://api.coingecko.com/api/v3/global'',
      ''https://api.coingecko.com/api/v3/coins/markets'',
      ''https://api.coingecko.com/api/v3/coins/list'',
      ''https://api.coingecko.com/api/v3/search/trending'',
      ''https://api.coingecko.com/api/v3/simple/price'']"

text \<open>\<^verbatim>\<open>CACHE_DURATIONS\<close>, in milliseconds.\<close>

definition CACHE_DURATIONS_static :: int where
  "CACHE_DURATIONS_static = 24 * 60 * 60 * 1000"

definition CACHE_DURATIONS_api :: int where
  "CACHE_DURATIONS_api = 5 * 60 * 1000"

definition CACHE_DURATIONS_dynamic :: int where
  "CACHE_DURATIONS_dynamic = 60 * 60 * 1000"

definition CACHE_DURATIONS_images :: int where
  "CACHE_DURATIONS_images = 7 * 24 * 60 * 60 * 1000"

section \<open>Freshness\<close>

text \<open>
  \<^verbatim>\<open>isCacheExpired(response, maxAge)\<close>; the first argument is the value of
  \<^verbatim>\<open>Date.now()\<close>. A missing or empty header is falsy, so the entry is expired. When
  \<^verbatim>\<open>parseInt\<close> yields NaN the age is NaN and \<^verbatim>\<open>age > maxAge\<close> is false.
\<close>

definition isCacheExpired :: "int \<Rightarrow> response \<Rightarrow> int \<Rightarrow> bool" where
  "isCacheExpired now response maxAge =
     (case headers_get (headers response) ''sw-cache-timestamp'' of
        None \<Rightarrow> True
      | Some cacheTimestamp \<Rightarrow>
          if cacheTimestamp = [] then True
          else (case parseInt cacheTimestamp of
                  None \<Rightarrow> False
                | Some t \<Rightarrow> now - t > maxAge))"

section \<open>The cache storage\<close>

text \<open>
  \<^verbatim>\<open>caches\<close> maps partition names to caches, a cache maps request URLs to responses
  (the Cache API files GET requests only and finds them by URL). Both are association
  lists, so that \<^verbatim>\<open>cache.keys()\<close> can enumerate. A cache handle is the partition's
  name. \<^verbatim>\<open>caches.open\<close> creates a missing partition and rejects when the backing
  store is unavailable; a rejected promise is \<open>Inl\<close>.

  \<open>cache_match\<close> and \<open>cache_put\<close> are \<^verbatim>\<open>cache.match\<close> and \<^verbatim>\<open>cache.put\<close> on
  a URL. The worker never awaits \<^verbatim>\<open>cache.put\<close>, so a put that the platform rejects is
  lost without a trace: \<open>cache_put\<close> then leaves the storage as it was. Called with a
  request whose method is not GET, \<^verbatim>\<open>cache.match\<close> finds nothing and
  \<^verbatim>\<open>cache.put\<close> rejects.
\<close>

datatype error = StorageUnavailable | TypeError | InvalidStateError

type_synonym cache = "(string \<times> response) list"

record CacheStorage =
  available :: bool
  caches :: "(string \<times> cache) list"

definition entries :: "CacheStorage \<Rightarrow> string \<Rightarrow> cache" where
  "entries s name = (case map_of (caches s) name of None \<Rightarrow> [] | Some c \<Rightarrow> c)"

definition caches_open :: "CacheStorage \<Rightarrow> string \<Rightarrow> error + CacheStorage" where
  "caches_open s name =
     (if \<not> available s then Inl StorageUnavailable
      else if map_of (caches s) name = None then Inr (s\<lparr>caches := caches s @ [(name, [])]\<rparr>)
      else Inr s)"

definition cache_match :: "CacheStorage \<Rightarrow> string \<Rightarrow> string \<Rightarrow> response option" where
  "cache_match s name key = map_of (entries s name) key"

definition cache_put :: "CacheStorage \<Rightarrow> string \<Rightarrow> string \<Rightarrow> response \<Rightarrow> CacheStorage" where
  "cache_put s name key r =
     (if put_refused key r then s
      else s\<lparr>caches := AList.update name (AList.update key r (entries s name)) (caches s)\<rparr>)"

definition cache_match_request :: "CacheStorage \<Rightarrow> string \<Rightarrow> request \<Rightarrow> response option" where
  "cache_match_request s name request =
     (if method_name request = ''GET'' then cache_match s name (href (url request)) else None)"

definition cache_put_request :: "CacheStorage \<Rightarrow> string \<Rightarrow> request \<Rightarrow> response \<Rightarrow> CacheStorage" where
  "cache_put_request s name request r =
     (if method_name request = ''GET'' then cache_put s name (href (url request)) r else s)"

definition cache_delete :: "CacheStorage \<Rightarrow> string \<Rightarrow> string \<Rightarrow> CacheStorage" where
  "cache_delete s name key =
     s\<lparr>caches := AList.update name (AList.delete key (entries s name)) (caches s)\<rparr>"

definition cache_keys :: "CacheStorage \<Rightarrow> string \<Rightarrow> string list" where
  "cache_keys s name = map fst (entries s name)"

section \<open>The strategy handlers\<close>

text \<open>
  A handler runs against an environment: \<open>fetch\<close> gives the network's answer for a
  URL (\<open>None\<close> when the promise rejects) and \<open>Date_now\<close> is the clock, read at one
  instant for the whole run. \<open>resolve\<close> is the platform's URL parser for a string
  that the worker itself hands to \<^verbatim>\<open>fetch\<close> or to the Cache API: it parses against the
  worker's location and gives the absolute URL without its fragment, or \<open>None\<close> when
  the string does not parse and the call throws a TypeError. A handler that resolves
  yields the value it returns
  (\<open>None\<close> is \<^verbatim>\<open>undefined\<close>, which \<^verbatim>\<open>cache.match\<close> gives on a miss), the storage
  after its writes, and the tasks it started without awaiting them. A handler whose
  promise rejects yields \<open>Inl\<close>.
\<close>

record env =
  fetch :: "string \<Rightarrow> response option"
  Date_now :: int
  resolve :: "string \<Rightarrow> string option"

datatype task = UpdateAPICache request

record outcome =
  returned :: "response option"
  storage :: CacheStorage
  detached :: "task list"

text \<open>
  The copy filed by the api and image handlers: the network response's body, status and
  status text under headers to which \<^verbatim>\<open>sw-cache-timestamp\<close> has been set.
\<close>

definition stamp :: "int \<Rightarrow> response \<Rightarrow> response" where
  "stamp now r =
     \<lparr>status = status r, statusText = statusText r,
      headers = headers_set (headers r) ''sw-cache-timestamp'' (toString now),
      body = body r\<rparr>"

text \<open>
  \<^verbatim>\<open>new Response(text, { status })\<close>: a string body brings the default content type,
  the status text is empty.
\<close>

definition text_response :: "string \<Rightarrow> nat \<Rightarrow> response" where
  "text_response text st =
     \<lparr>status = st, statusText = '''',
      headers = [(''content-type'', ''text/plain;charset=UTF-8'')], body = text\<rparr>"

text \<open>The api handler's offline payload: \<^verbatim>\<open>JSON.stringify\<close> of the object, status 503.\<close>

definition offline_api_response :: response where
  \<open>offline_api_response =
     \<lparr>status = 503, statusText = '''',
      headers = [(''content-type'', ''application/json'')],
      body = ''{"error":"Offline","message":"Network unavailable. Please check your connection.","cached":false}''\<rparr>\<close>

definition handleAPIRequest :: "env \<Rightarrow> CacheStorage \<Rightarrow> request \<Rightarrow> error + outcome" where
  "handleAPIRequest e s request =
     (case caches_open s API_CACHE_NAME of
        Inl err \<Rightarrow> Inl err
      | Inr s1 \<Rightarrow>
          let cachedResponse = cache_match_request s1 API_CACHE_NAME request in
          if (case cachedResponse of
                None \<Rightarrow> False
              | Some c \<Rightarrow> \<not> isCacheExpired (Date_now e) c CACHE_DURATIONS_api)
          then Inr \<lparr>returned = cachedResponse, storage = s1,
                    detached = [UpdateAPICache request]\<rparr>
          else (case fetch e (href (url request)) of
                  Some networkResponse \<Rightarrow>
                    Inr \<lparr>returned = Some networkResponse,
                         storage =
                           (if ok networkResponse
                            then cache_put_request s1 API_CACHE_NAME request
                                   (stamp (Date_now e) networkResponse)
                            else s1),
                         detached = []\<rparr>
                | None \<Rightarrow>
                    (case cachedResponse of
                       Some c \<Rightarrow> Inr \<lparr>returned = Some c, storage = s1, detached = []\<rparr>
                     | None \<Rightarrow>
                         Inr \<lparr>returned = Some offline_api_response, storage = s1,
                              detached = []\<rparr>)))"

definition handleStaticAsset :: "env \<Rightarrow> CacheStorage \<Rightarrow> request \<Rightarrow> error + outcome" where
  "handleStaticAsset e s request =
     (case caches_open s STATIC_CACHE_NAME of
        Inl err \<Rightarrow> Inl err
      | Inr s1 \<Rightarrow>
          (case cache_match_request s1 STATIC_CACHE_NAME request of
             Some cachedResponse \<Rightarrow>
               Inr \<lparr>returned = Some cachedResponse, storage = s1, detached = []\<rparr>
           | None \<Rightarrow>
               (case fetch e (href (url request)) of
                  Some networkResponse \<Rightarrow>
                    Inr \<lparr>returned = Some networkResponse,
                         storage =
                           (if ok networkResponse
                            then cache_put_request s1 STATIC_CACHE_NAME request networkResponse
                            else s1),
                         detached = []\<rparr>
                | None \<Rightarrow>
                    if destination request = ''document''
                    then (case resolve e ''/index.html'' of
                            None \<Rightarrow> Inl TypeError
                          | Some fallback \<Rightarrow>
                              Inr \<lparr>returned = cache_match s1 STATIC_CACHE_NAME fallback,
                                   storage = s1, detached = []\<rparr>)
                    else Inr \<lparr>returned = Some (text_response ''Asset not available offline'' 503),
                              storage = s1, detached = []\<rparr>)))"

definition handleImageRequest :: "env \<Rightarrow> CacheStorage \<Rightarrow> request \<Rightarrow> error + outcome" where
  "handleImageRequest e s request =
     (case caches_open s DYNAMIC_CACHE_NAME of
        Inl err \<Rightarrow> Inl err
      | Inr s1 \<Rightarrow>
          let cachedResponse = cache_match_request s1 DYNAMIC_CACHE_NAME request in
          if (case cachedResponse of
                None \<Rightarrow> False
              | Some c \<Rightarrow> \<not> isCacheExpired (Date_now e) c CACHE_DURATIONS_images)
          then Inr \<lparr>returned = cachedResponse, storage = s1, detached = []\<rparr>
          else (case fetch e (href (url request)) of
                  Some networkResponse \<Rightarrow>
                    Inr \<lparr>returned = Some networkResponse,
                         storage =
                           (if ok networkResponse
                            then cache_put_request s1 DYNAMIC_CACHE_NAME request
                                   (stamp (Date_now e) networkResponse)
                            else s1),
                         detached = []\<rparr>
                | None \<Rightarrow>
                    (case cachedResponse of
                       Some c \<Rightarrow> Inr \<lparr>returned = Some c, storage = s1, detached = []\<rparr>
                     | None \<Rightarrow>
                         Inr \<lparr>returned = Some (text_response '''' 404), storage = s1,
                              detached = []\<rparr>)))"

text \<open>
  In the dynamic handler \<^verbatim>\<open>caches.open\<close> is called inside the \<^verbatim>\<open>try\<close> after an ok
  response, so its rejection lands in the \<^verbatim>\<open>catch\<close> block, which opens the same
  partition again outside any \<^verbatim>\<open>try\<close>. A response that is not ok is returned without
  the storage being touched. The fallback document is looked up under the URL to which
  the platform resolves \<^verbatim>\<open>'/index.html'\<close>, here and in the static handler.
\<close>

definition handleDynamicRequest_catch :: "env \<Rightarrow> CacheStorage \<Rightarrow> request \<Rightarrow> error + outcome" where
  "handleDynamicRequest_catch e s request =
     (case caches_open s DYNAMIC_CACHE_NAME of
        Inl err \<Rightarrow> Inl err
      | Inr s1 \<Rightarrow>
          (case cache_match_request s1 DYNAMIC_CACHE_NAME request of
             Some cachedResponse \<Rightarrow>
               Inr \<lparr>returned = Some cachedResponse, storage = s1, detached = []\<rparr>
           | None \<Rightarrow>
               if destination request = ''document''
               then (case caches_open s1 STATIC_CACHE_NAME of
                       Inl err \<Rightarrow> Inl err
                     | Inr s2 \<Rightarrow>
                         (case resolve e ''/index.html'' of
                            None \<Rightarrow> Inl TypeError
                          | Some fallback \<Rightarrow>
                              Inr \<lparr>returned = cache_match s2 STATIC_CACHE_NAME fallback,
                                   storage = s2, detached = []\<rparr>))
               else Inr \<lparr>returned = Some (text_response ''Content not available offline'' 503),
                         storage = s1, detached = []\<rparr>))"

definition handleDynamicRequest :: "env \<Rightarrow> CacheStorage \<Rightarrow> request \<Rightarrow> error + outcome" where
  "handleDynamicRequest e s request =
     (case fetch e (href (url request)) of
        Some networkResponse \<Rightarrow>
          if ok networkResponse
          then (case caches_open s DYNAMIC_CACHE_NAME of
                  Inl err \<Rightarrow> handleDynamicRequest_catch e s request
                | Inr s1 \<Rightarrow>
                    Inr \<lparr>returned = Some networkResponse,
                         storage = cache_put_request s1 DYNAMIC_CACHE_NAME request networkResponse,
                         detached = []\<rparr>)
          else Inr \<lparr>returned = Some networkResponse, storage = s, detached = []\<rparr>
      | None \<Rightarrow> handleDynamicRequest_catch e s request)"

text \<open>
  \<^verbatim>\<open>updateAPICache\<close>, the task the api handler starts without awaiting it. It catches
  its own errors, so it always completes; it receives the cache handle already opened.
\<close>

definition updateAPICache :: "env \<Rightarrow> CacheStorage \<Rightarrow> request \<Rightarrow> CacheStorage" where
  "updateAPICache e s request =
     (case fetch e (href (url request)) of
        Some networkResponse \<Rightarrow>
          if ok networkResponse
          then cache_put_request s API_CACHE_NAME request (stamp (Date_now e) networkResponse)
          else s
      | None \<Rightarrow> s)"

fun run_task :: "env \<Rightarrow> CacheStorage \<Rightarrow> task \<Rightarrow> CacheStorage" where
  "run_task e s (UpdateAPICache request) = updateAPICache e s request"

section \<open>The fetch listener\<close>

definition isAPIRequest :: "URL \<Rightarrow> bool" where
  "isAPIRequest u =
     (list_ex (\<lambda>endpoint. startsWith (href u) endpoint) API_ENDPOINTS \<or>
      hostname u = ''api.coingecko.com'' \<or>
      str_includes (pathname u) ''/api/'')"

definition isStaticAsset :: "URL \<Rightarrow> bool" where
  "isStaticAsset u =
     (list_ex (\<lambda>asset. pathname u = asset) STATIC_ASSETS \<or>
      endsWith (pathname u) ''.js'' \<or>
      endsWith (pathname u) ''.css'' \<or>
      endsWith (pathname u) ''.html'' \<or>
      hostname u = ''cdn.jsdelivr.net'' \<or>
      hostname u = ''cdn.tailwindcss.com'' \<or>
      hostname u = ''unpkg.com'' \<or>
      hostname u = ''fonts.googleapis.com'' \<or>
      hostname u = ''fonts.gstatic.com'')"

text \<open>
  The pattern \<^verbatim>\<open>/\.(jpg|jpeg|png|gif|webp|svg|ico)$/i\<close> matches when the path, with its
  letters folded, ends in a dot and one of the seven extensions.
\<close>

definition isImageRequest :: "URL \<Rightarrow> bool" where
  "isImageRequest u =
     (list_ex (\<lambda>ext. endsWith (map toLowerChar (pathname u)) (CHR ''.'' # ext))
        [''jpg'', ''jpeg'', ''png'', ''gif'', ''webp'', ''svg'', ''ico''] \<or>
      ''image'' \<in> set (map fst (searchParams u)) \<or>
      str_includes (pathname u) ''/images/'')"

text \<open>
  The listener's chain of tests picks one handler; \<open>route\<close> names the branch taken
  and \<open>None\<close> is the early return for a URL that does not start with \<^verbatim>\<open>http\<close>,
  where \<^verbatim>\<open>respondWith\<close> is not called and the browser handles the request itself.
\<close>

datatype strategy = API | STATIC | IMAGE | DYNAMIC

definition route :: "request \<Rightarrow> strategy option" where
  "route request =
     (if \<not> startsWith (href (url request)) ''http'' then None
      else if isAPIRequest (url request) then Some API
      else if isStaticAsset (url request) then Some STATIC
      else if isImageRequest (url request) then Some IMAGE
      else Some DYNAMIC)"

fun respond :: "strategy \<Rightarrow> env \<Rightarrow> CacheStorage \<Rightarrow> request \<Rightarrow> error + outcome" where
  "respond API e s request = handleAPIRequest e s request"
| "respond STATIC e s request = handleStaticAsset e s request"
| "respond IMAGE e s request = handleImageRequest e s request"
| "respond DYNAMIC e s request = handleDynamicRequest e s request"

definition fetch_listener :: "env \<Rightarrow> CacheStorage \<Rightarrow> request \<Rightarrow> (error + outcome) option" where
  "fetch_listener e s request = map_option (\<lambda>st. respond st e s request) (route request)"

section \<open>Commands from the page\<close>

text \<open>
  \<^verbatim>\<open>cache.addAll(urls)\<close> is the platform's. It parses and fetches every URL and
  rejects with a TypeError, storing nothing, when one string does not parse or is not
  an http or https URL, when one fetch fails, or when one response is not ok, has
  status 206 or lists \<^verbatim>\<open>*\<close> in \<^verbatim>\<open>Vary\<close>. A list in which two strings are the same
  URL, fragments apart, is rejected with an InvalidStateError. Otherwise every response
  is stored under its URL.
\<close>

definition addAll_refuses :: "env \<Rightarrow> string \<Rightarrow> bool" where
  "addAll_refuses e u =
     (case resolve e u of
        None \<Rightarrow> True
      | Some k \<Rightarrow>
          \<not> is_http_url k \<or>
          (case fetch e k of
             None \<Rightarrow> True
           | Some r \<Rightarrow> \<not> ok r \<or> status r = 206 \<or> vary_star (headers r)))"

definition addAll_store :: "env \<Rightarrow> string \<Rightarrow> string \<Rightarrow> CacheStorage \<Rightarrow> CacheStorage" where
  "addAll_store e name u s =
     (case resolve e u of
        None \<Rightarrow> s
      | Some k \<Rightarrow> (case fetch e k of None \<Rightarrow> s | Some r \<Rightarrow> cache_put s name k r))"

definition cache_addAll :: "env \<Rightarrow> CacheStorage \<Rightarrow> string \<Rightarrow> string list \<Rightarrow> error + CacheStorage" where
  "cache_addAll e s name us =
     (if list_ex (addAll_refuses e) us then Inl TypeError
      else if \<not> distinct (map (resolve e) us) then Inl InvalidStateError
      else Inr (fold (addAll_store e name) us s))"

record update_payload =
  cacheName :: string
  urls :: "string list"

text \<open>
  \<^verbatim>\<open>handleCacheUpdate\<close> writes one console line for the whole batch: the success line
  with the number of URLs, or the error line with the error caught.
\<close>

datatype console = Cache_updated string nat | Cache_update_failed error

definition handleCacheUpdate :: "env \<Rightarrow> CacheStorage \<Rightarrow> update_payload \<Rightarrow> console \<times> CacheStorage" where
  "handleCacheUpdate e s payload =
     (case caches_open s (cacheName payload) of
        Inl err \<Rightarrow> (Cache_update_failed err, s)
      | Inr s1 \<Rightarrow>
          (case cache_addAll e s1 (cacheName payload) (urls payload) of
             Inl err \<Rightarrow> (Cache_update_failed err, s1)
           | Inr s2 \<Rightarrow> (Cache_updated (cacheName payload) (length (urls payload)), s2)))"

text \<open>
  \<^verbatim>\<open>handlePrefetchUrls\<close>: one \<^verbatim>\<open>try\<close> around each URL, one around the whole loop.
  A string that does not parse makes \<^verbatim>\<open>fetch\<close> throw, which the inner \<^verbatim>\<open>catch\<close>
  takes like a failed fetch.
\<close>

definition prefetch_one :: "env \<Rightarrow> string \<Rightarrow> CacheStorage \<Rightarrow> CacheStorage" where
  "prefetch_one e u s =
     (case resolve e u of
        None \<Rightarrow> s
      | Some k \<Rightarrow>
          (case fetch e k of
             None \<Rightarrow> s
           | Some response \<Rightarrow>
               if ok response then cache_put s DYNAMIC_CACHE_NAME k response else s))"


section \<open>Periodic cache cleanup\<close>

text \<open>
  The callback of \<^verbatim>\<open>setInterval\<close>, run every hour with the clock at \<open>now\<close>. The inner
  loop walks \<^verbatim>\<open>cache.keys()\<close>; the outer loop walks the two cache names inside one
  \<^verbatim>\<open>try\<close>, so a rejected \<^verbatim>\<open>caches.open\<close> ends the sweep with what was done so far.
  Both partitions are tested against \<^verbatim>\<open>CACHE_DURATIONS.api\<close>.
\<close>

definition cleanup_entry :: "int \<Rightarrow> string \<Rightarrow> string \<Rightarrow> CacheStorage \<Rightarrow> CacheStorage" where
  "cleanup_entry now name key s =
     (case cache_match s name key of
        None \<Rightarrow> s
      | Some response \<Rightarrow>
          if isCacheExpired now response CACHE_DURATIONS_api then cache_delete s name key else s)"

definition cleanup_cache :: "int \<Rightarrow> CacheStorage \<Rightarrow> string \<Rightarrow> CacheStorage" where
  "cleanup_cache now s name = fold (cleanup_entry now name) (cache_keys s name) s"

fun cleanup_loop :: "int \<Rightarrow> CacheStorage \<Rightarrow> string list \<Rightarrow> CacheStorage" where
  "cleanup_loop now s [] = s"
| "cleanup_loop now s (name # rest) =
     (case caches_open s name of
        Inl err \<Rightarrow> s
      | Inr s1 \<Rightarrow> cleanup_loop now (cleanup_cache now s1 name) rest)"

definition periodic_cleanup :: "int \<Rightarrow> CacheStorage \<Rightarrow> CacheStorage" where
  "periodic_cleanup now s = cleanup_loop now s [API_CACHE_NAME, DYNAMIC_CACHE_NAME]"

text \<open>
  For the proofs: what the sweep's test at \<open>now\<close> leaves of the entry found under a
  key.
\<close>

definition swept :: "int \<Rightarrow> response option \<Rightarrow> response option" where
  "swept now entry =
     (case entry of
        None \<Rightarrow> None
      | Some r \<Rightarrow> if isCacheExpired now r CACHE_DURATIONS_api then None else Some r)"

section \<open>Concrete requests, networks and storages\<close>

text \<open>
  Inputs at which the theorems below are evaluated. The worker of the examples is served
  from \<^verbatim>\<open>https://monitor.example\<close>. \<open>resolve_at\<close> parses the two forms of URL the
  examples use as the platform does: an absolute http or https URL is kept, a path that
  starts with one slash is put after the origin, and the fragment is dropped. It
  refuses every other string.
\<close>

definition resolve_at :: "string \<Rightarrow> string \<Rightarrow> string option" where
  "resolve_at origin u =
     (let v = takeWhile (\<lambda>c. c \<noteq> CHR ''#'') u
      in if is_http_url v then Some v
         else if startsWith v ''/'' \<and> \<not> startsWith v ''//'' then Some (origin @ v)
         else None)"

definition price_request :: request where
  "price_request =
     \<lparr>url = \<lparr>href = ''https://api.coingecko.com/api/v3/simple/price?ids=bitcoin'',
             hostname = ''api.coingecko.com'', pathname = ''/api/v3/simple/price'',
             searchParams = [(''ids'', ''bitcoin'')]\<rparr>,
      method_name = ''GET'', destination = ''''\<rparr>"

definition offline :: env where
  "offline = \<lparr>fetch = (\<lambda>u. None), Date_now = 1700000000000,
      resolve = resolve_at ''https://monitor.example''\<rparr>"

definition empty_storage :: CacheStorage where
  "empty_storage = \<lparr>available = True, caches = []\<rparr>"

definition script_request :: request where
  "script_request =
     \<lparr>url = \<lparr>href = ''https://monitor.example/js/app.js'', hostname = ''monitor.example'',
             pathname = ''/js/app.js'', searchParams = []\<rparr>,
      method_name = ''GET'', destination = ''script''\<rparr>"

definition logo_request :: request where
  "logo_request =
     \<lparr>url = \<lparr>href = ''https://monitor.example/assets/Logo.PNG'', hostname = ''monitor.example'',
             pathname = ''/assets/Logo.PNG'', searchParams = []\<rparr>,
      method_name = ''GET'', destination = ''image''\<rparr>"

definition page_request :: request where
  "page_request =
     \<lparr>url = \<lparr>href = ''https://monitor.example/about'', hostname = ''monitor.example'',
             pathname = ''/about'', searchParams = []\<rparr>,
      method_name = ''GET'', destination = ''document''\<rparr>"

definition mixed_request :: request where
  "mixed_request =
     \<lparr>url = \<lparr>href = ''https://monitor.example/api/images/app.js'', hostname = ''monitor.example'',
             pathname = ''/api/images/app.js'', searchParams = []\<rparr>,
      method_name = ''GET'', destination = ''''\<rparr>"

definition server_error :: response where
  "server_error = \<lparr>status = 500, statusText = ''Internal Server Error'', headers = [], body = ''''\<rparr>"

definition failing_server :: env where
  "failing_server = \<lparr>fetch = (\<lambda>u. Some server_error), Date_now = 1700000000000,
      resolve = resolve_at ''https://monitor.example''\<rparr>"

definition price_payload :: response where
  \<open>price_payload =
     \<lparr>status = 200, statusText = ''OK'', headers = [(''content-type'', ''application/json'')],
      body = ''{"bitcoin":{"usd":43000}}''\<rparr>\<close>

definition online :: env where
  "online = \<lparr>fetch = (\<lambda>u. Some price_payload), Date_now = 1700000000000,
      resolve = resolve_at ''https://monitor.example''\<rparr>"

definition logo_payload :: response where
  "logo_payload =
     \<lparr>status = 200, statusText = ''OK'', headers = [(''content-type'', ''image/png'')],
      body = ''PNG''\<rparr>"

definition image_server :: env where
  "image_server = \<lparr>fetch = (\<lambda>u. Some logo_payload), Date_now = 1700000000000,
      resolve = resolve_at ''https://monitor.example''\<rparr>"

text \<open>
  The storage after the image handler has fetched and filed \<open>logo_request\<close> at
  \<open>1700000000000\<close>.
\<close>

definition logo_cached :: CacheStorage where
  "logo_cached =
     \<lparr>available = True,
      caches = [(DYNAMIC_CACHE_NAME,
                 [(''https://monitor.example/assets/Logo.PNG'', stamp 1700000000000 logo_payload)])]\<rparr>"

definition old_price_payload :: response where
  \<open>old_price_payload =
     \<lparr>status = 200, statusText = ''OK'', headers = [(''content-type'', ''application/json'')],
      body = ''{"bitcoin":{"usd":41000}}''\<rparr>\<close>

text \<open>
  An api partition whose entry for \<open>price_request\<close> was stamped 1000 seconds before
  \<open>1700000000000\<close>, and one whose entry was stamped 100 seconds before.
\<close>

definition stale_api_storage :: CacheStorage where
  "stale_api_storage =
     \<lparr>available = True,
      caches = [(API_CACHE_NAME,
                 [(''https://api.coingecko.com/api/v3/simple/price?ids=bitcoin'',
                   stamp 1699999000000 old_price_payload)])]\<rparr>"

definition fresh_api_storage :: CacheStorage where
  "fresh_api_storage =
     \<lparr>available = True,
      caches = [(API_CACHE_NAME,
                 [(''https://api.coingecko.com/api/v3/simple/price?ids=bitcoin'',
                   stamp 1699999900000 old_price_payload)])]\<rparr>"

definition refreshed_api_storage :: CacheStorage where
  "refreshed_api_storage =
     \<lparr>available = True,
      caches = [(API_CACHE_NAME,
                 [(''https://api.coingecko.com/api/v3/simple/price?ids=bitcoin'',
                   stamp 1700000000000 price_payload)])]\<rparr>"

definition help_request :: request where
  "help_request =
     \<lparr>url = \<lparr>href = ''https://monitor.example/help.html'', hostname = ''monitor.example'',
             pathname = ''/help.html'', searchParams = []\<rparr>,
      method_name = ''GET'', destination = ''document''\<rparr>"

definition broken_storage :: CacheStorage where
  "broken_storage = \<lparr>available = False, caches = []\<rparr>"

text \<open>A network on which one endpoint is unreachable and every other URL answers.\<close>

definition flaky :: env where
  "flaky =
     \<lparr>fetch = (\<lambda>u. if u = ''https://api.coingecko.com/api/v3/global'' then None
                    else Some price_payload),
      Date_now = 1700000000000,
      resolve = resolve_at ''https://monitor.example''\<rparr>"

definition update_both :: update_payload where
  "update_both =
     \<lparr>cacheName = API_CACHE_NAME,
      urls = [''https://api.coingecko.com/api/v3/global'',
              ''https://api.coingecko.com/api/v3/coins/list'']\<rparr>"

definition update_list :: update_payload where
  "update_list =
     \<lparr>cacheName = API_CACHE_NAME, urls = [''https://api.coingecko.com/api/v3/coins/list'']\<rparr>"

definition both_cached :: CacheStorage where
  "both_cached =
     \<lparr>available = True,
      caches = [(DYNAMIC_CACHE_NAME,
                 [(''https://monitor.example/assets/Logo.PNG'', stamp 1700000000000 logo_payload),
                  (''https://monitor.example/about'', price_payload)])]\<rparr>"





section \<open>Basic facts\<close>

subsection \<open>The storage operations\<close>

lemma entries_put:
  "entries (cache_put s n k r) n' =
     (if n' = n \<and> \<not> put_refused k r then AList.update k r (entries s n) else entries s n')"
  by (simp add: entries_def cache_put_def update_conv')

lemma entries_delete:
  "entries (cache_delete s n k) n' =
     (if n' = n then AList.delete k (entries s n) else entries s n')"
  by (simp add: entries_def cache_delete_def update_conv')

lemma cache_match_put:
  "cache_match (cache_put s n k r) n' k' =
     (if n' = n \<and> k' = k \<and> \<not> put_refused k r then Some r else cache_match s n' k')"
  by (simp add: cache_match_def entries_put update_conv')

lemma cache_match_put_request:
  "cache_match (cache_put_request s n request r) n' k' =
     (if method_name request = ''GET'' \<and> n' = n \<and> k' = href (url request) \<and>
         \<not> put_refused (href (url request)) r
      then Some r else cache_match s n' k')"
  by (simp add: cache_put_request_def cache_match_put)

lemma cache_put_refused: "put_refused k r \<Longrightarrow> cache_put s n k r = s"
  by (simp add: cache_put_def)

lemma put_refused_206: "status r = 206 \<Longrightarrow> put_refused k r"
  by (simp add: put_refused_def)

lemma vary_star_examples:
  "vary_star [(''vary'', ''accept-encoding, *'')]"
  "vary_star [(''vary'', ''*'')]"
  "\<not> vary_star [(''vary'', ''accept-encoding'')]"
  "\<not> vary_star [(''content-type'', ''*'')]"
  by (simp_all add: vary_star_def headers_get_def trim_def is_white_space_def)

lemma available_put_request: "available (cache_put_request s n request r) = available s"
  by (simp add: cache_put_request_def cache_put_def)

lemma cache_match_delete:
  "cache_match (cache_delete s n k) n' k' = (if n' = n \<and> k' = k then None else cache_match s n' k')"
  by (simp add: cache_match_def entries_delete delete_conv')

lemma entries_open: "caches_open s n = Inr s1 \<Longrightarrow> entries s1 n' = entries s n'"
  by (auto simp: caches_open_def entries_def split: if_splits option.splits)

lemma cache_match_open: "caches_open s n = Inr s1 \<Longrightarrow> cache_match s1 n' k = cache_match s n' k"
  by (simp add: cache_match_def entries_open)

lemma available_open: "caches_open s n = Inr s1 \<Longrightarrow> available s1 = available s"
  by (auto simp: caches_open_def split: if_splits)

lemma caches_open_available: "available s \<Longrightarrow> \<exists>s1. caches_open s n = Inr s1"
  by (simp add: caches_open_def)

lemma caches_open_unavailable: "\<not> available s \<Longrightarrow> caches_open s n = Inl StorageUnavailable"
  by (simp add: caches_open_def)

lemma available_put: "available (cache_put s n k r) = available s"
  by (simp add: cache_put_def)

lemma available_delete: "available (cache_delete s n k) = available s"
  by (simp add: cache_delete_def)

subsection \<open>The freshness marker survives the round trip\<close>

text \<open>
  What \<^verbatim>\<open>Date.now().toString()\<close> writes, \<^verbatim>\<open>parseInt\<close> reads back, so a stamped
  entry is expired exactly when its age exceeds the maximum.
\<close>

lemma digit_char_dec: "d < 10 \<Longrightarrow> dec_char (digit_char d)"
  unfolding dec_char_def digit_char_def by (rule nth_mem) simp

lemma lt10_cases:
  "(d::nat) < 10 \<Longrightarrow>
     d = 0 \<or> d = 1 \<or> d = 2 \<or> d = 3 \<or> d = 4 \<or> d = 5 \<or> d = 6 \<or> d = 7 \<or> d = 8 \<or> d = 9"
  by arith

lemma digit_value_table: "digit_value (digit_char 0) = Some 0" "digit_value (digit_char 1) = Some 1"
  "digit_value (digit_char 2) = Some 2" "digit_value (digit_char 3) = Some 3"
  "digit_value (digit_char 4) = Some 4" "digit_value (digit_char 5) = Some 5"
  "digit_value (digit_char 6) = Some 6" "digit_value (digit_char 7) = Some 7"
  "digit_value (digit_char 8) = Some 8" "digit_value (digit_char 9) = Some 9"
  by (simp_all add: digit_char_def digit_value_def toLowerChar_def)

lemma digit_value_digit_char: "d < 10 \<Longrightarrow> digit_value (digit_char d) = Some d"
proof -
  assume "d < 10"
  then consider "d = 0" | "d = 1" | "d = 2" | "d = 3" | "d = 4" | "d = 5" | "d = 6"
    | "d = 7" | "d = 8" | "d = 9"
    using lt10_cases by blast
  then show ?thesis
    using digit_value_table by cases simp_all
qed

lemma dec_char_is_digit: "dec_char c \<Longrightarrow> is_digit 10 c"
  unfolding dec_char_def
  by (simp, elim disjE) (simp_all add: is_digit_def digit_value_def toLowerChar_def)

lemma dec_char_plain:
  "dec_char c \<Longrightarrow> \<not> is_white_space c \<and> c \<noteq> CHR ''-'' \<and> c \<noteq> CHR ''+'' \<and> c \<noteq> CHR ''x'' \<and> c \<noteq> CHR ''X''"
  unfolding dec_char_def
  by (simp, elim disjE) (simp_all add: is_white_space_def)

lemma digits_dec: "\<forall>c \<in> set (digits n). dec_char c"
proof (induction n rule: digits.induct)
  case (1 n)
  show ?case
  proof (cases "n < 10")
    case True
    then show ?thesis by (simp add: digits.simps [of n] digit_char_dec)
  next
    case False
    with 1 show ?thesis by (simp add: digits.simps [of n] digit_char_dec)
  qed
qed

lemma digits_nonempty: "digits n \<noteq> []"
  by (simp add: digits.simps [of n])

lemma digits_value: "foldl (\<lambda>acc c. acc * 10 + digit_of c) 0 (digits n) = n"
proof (induction n rule: digits.induct)
  case (1 n)
  show ?case
  proof (cases "n < 10")
    case True
    then show ?thesis by (simp add: digits.simps [of n] digit_of_def digit_value_digit_char)
  next
    case False
    with 1 show ?thesis by (simp add: digits.simps [of n] digit_of_def digit_value_digit_char)
  qed
qed

lemma parse_digits_digits: "parse_digits 10 (digits n) = Some n"
proof -
  have tw: "takeWhile (is_digit 10) (digits n) = digits n"
    using digits_dec [of n] by (simp add: takeWhile_eq_all_conv dec_char_is_digit)
  show ?thesis
    unfolding parse_digits_def Let_def tw by (simp add: digits_nonempty digits_value)
qed

lemma digits_no_hex_prefix: "\<not> startsWith (digits n) ''0x'' \<and> \<not> startsWith (digits n) ''0X''"
proof -
  have "CHR ''x'' \<notin> set (digits n)" "CHR ''X'' \<notin> set (digits n)"
    using digits_dec [of n] dec_char_plain by blast+
  then show ?thesis
    by (auto simp: startsWith_def prefix_def)
qed

lemma parse_unsigned_digits: "parse_unsigned (digits n) = Some n"
  by (simp add: parse_unsigned_def digits_no_hex_prefix parse_digits_digits)

lemma parseInt_digits: "parseInt (digits n) = Some (int n)"
proof -
  obtain c cs where d: "digits n = c # cs"
    using digits_nonempty [of n] by (cases "digits n") auto
  then have "dec_char c" using digits_dec [of n] by simp
  then have p: "\<not> is_white_space c" "c \<noteq> CHR ''-''" "c \<noteq> CHR ''+''"
    using dec_char_plain by blast+
  have "parse_unsigned (c # cs) = Some n"
    using parse_unsigned_digits [of n] d by simp
  with p d show ?thesis
    by (simp add: parseInt_def)
qed

lemma parseInt_toString: "parseInt (toString n) = Some n"
proof (cases "n < 0")
  case True
  then show ?thesis
    by (simp add: toString_def parseInt_def is_white_space_def parse_unsigned_digits)
next
  case False
  then show ?thesis
    by (simp add: toString_def parseInt_digits)
qed

lemma toString_nonempty: "toString n \<noteq> []"
  by (simp add: toString_def digits_nonempty)

lemma isCacheExpired_stamp: "isCacheExpired now (stamp t r) maxAge = (now - t > maxAge)"
  by (simp add: isCacheExpired_def stamp_def headers_get_def headers_set_def update_conv'
      toString_nonempty parseInt_toString)



lemma put_refused_stamp: "put_refused k (stamp t r) = put_refused k r"
  by (simp add: put_refused_def stamp_def vary_star_def headers_get_def headers_set_def
      update_conv')


section \<open>The api handler without a network\<close>

lemma route_price_request: "route price_request = Some API"
  by (simp add: route_def price_request_def startsWith_def isAPIRequest_def)

lemma caches_open_broken: "caches_open broken_storage n = Inl StorageUnavailable"
  by (simp add: caches_open_def broken_storage_def)

text \<open>
  C7, as stated, fails: with the backing store unavailable, the network down and no
  entry for the key, the api handler rejects instead of answering with the offline
  payload.
\<close>

theorem api_offline_counterexample:
  "route price_request = Some API \<and>
   fetch offline (href (url price_request)) = None \<and>
   cache_match broken_storage API_CACHE_NAME (href (url price_request)) = None \<and>
   fetch_listener offline broken_storage price_request = Some (Inl StorageUnavailable)"
  by (simp add: fetch_listener_def route_price_request handleAPIRequest_def caches_open_broken)
     (simp add: offline_def cache_match_def entries_def broken_storage_def)

text \<open>
  C7, amended. When the backing store opens and the network fetch of an api-class
  request fails, the handler answers. If \<^verbatim>\<open>cache.match\<close> finds no entry for the request
  in the api partition, the answer has status 503, content type
  \<^verbatim>\<open>application/json\<close> and the body
  \<^verbatim>\<open>{"error":"Offline","message":"Network unavailable. Please check your connection.","cached":false}\<close>.
  If it finds an entry, fresh or stale, the answer is that entry.
\<close>

theorem api_offline_fallback:
  assumes \<open>route request = Some API\<close> and \<open>available s\<close>
    and \<open>fetch e (href (url request)) = None\<close>
  shows \<open>\<exists>out. fetch_listener e s request = Some (Inr out) \<and>
           (case cache_match_request s API_CACHE_NAME request of
              None \<Rightarrow>
                returned out =
                  Some \<lparr>status = 503, statusText = '''',
                        headers = [(''content-type'', ''application/json'')],
                        body = ''{"error":"Offline","message":"Network unavailable. Please check your connection.","cached":false}''\<rparr>
            | Some c \<Rightarrow> returned out = Some c)\<close>
proof -
  obtain s1 where o: "caches_open s API_CACHE_NAME = Inr s1"
    using caches_open_available [OF assms(2)] by blast
  have m: "cache_match_request s1 API_CACHE_NAME request
             = cache_match_request s API_CACHE_NAME request"
    by (simp add: cache_match_request_def cache_match_open [OF o])
  show ?thesis
    using assms(1,3) o m
    by (auto simp: fetch_listener_def handleAPIRequest_def offline_api_response_def Let_def
        split: option.splits)
qed

theorem api_offline_fallback_witness:
  \<open>route price_request = Some API \<and> available empty_storage \<and>
   fetch offline (href (url price_request)) = None \<and>
   cache_match_request empty_storage API_CACHE_NAME price_request = None \<and>
   (\<exists>out. fetch_listener offline empty_storage price_request = Some (Inr out) \<and>
          returned out =
            Some \<lparr>status = 503, statusText = '''',
                  headers = [(''content-type'', ''application/json'')],
                  body = ''{"error":"Offline","message":"Network unavailable. Please check your connection.","cached":false}''\<rparr>) \<and>
   available stale_api_storage \<and>
   cache_match_request stale_api_storage API_CACHE_NAME price_request
     = Some (stamp 1699999000000 old_price_payload) \<and>
   (\<exists>out. fetch_listener offline stale_api_storage price_request = Some (Inr out) \<and>
          returned out = Some (stamp 1699999000000 old_price_payload))\<close>
proof -
  have a: "route price_request = Some API" by (rule route_price_request)
  have b: "available empty_storage" by (simp add: empty_storage_def)
  have c: "fetch offline (href (url price_request)) = None" by (simp add: offline_def)
  have d: "cache_match_request empty_storage API_CACHE_NAME price_request = None"
    by (simp add: cache_match_request_def cache_match_def entries_def empty_storage_def)
  have b': "available stale_api_storage" by (simp add: stale_api_storage_def)
  have d': "cache_match_request stale_api_storage API_CACHE_NAME price_request
              = Some (stamp 1699999000000 old_price_payload)"
    by (simp add: cache_match_request_def stale_api_storage_def cache_match_def entries_def
        price_request_def)
  show ?thesis
    using api_offline_fallback [OF a b c] api_offline_fallback [OF a b' c] a b c d b' d'
    by simp
qed

section \<open>Routing and what the handlers write\<close>

lemma route_script_request: "route script_request = Some STATIC"
  by (simp add: route_def script_request_def startsWith_def isAPIRequest_def isStaticAsset_def
      STATIC_ASSETS_def API_ENDPOINTS_def str_includes_def sublist_code)

lemma not_image_page: "\<not> isImageRequest (url page_request)"
  by (simp add: isImageRequest_def page_request_def endsWith_def suffix_to_prefix
      toLowerChar_def str_includes_def sublist_code)

lemma not_static_page: "\<not> isStaticAsset (url page_request)"
  by (simp add: isStaticAsset_def page_request_def endsWith_def suffix_to_prefix
      STATIC_ASSETS_def)

lemma not_api_page: "\<not> isAPIRequest (url page_request)"
  by (simp add: isAPIRequest_def page_request_def startsWith_def API_ENDPOINTS_def
      str_includes_def sublist_code)

lemma route_page_request: "route page_request = Some DYNAMIC"
  by (simp add: route_def not_image_page not_static_page not_api_page)
     (simp add: page_request_def startsWith_def)

lemma image_logo: "isImageRequest (url logo_request)"
  by (simp add: isImageRequest_def logo_request_def endsWith_def suffix_to_prefix
      toLowerChar_def)

lemma not_static_logo: "\<not> isStaticAsset (url logo_request)"
  by (simp add: isStaticAsset_def logo_request_def endsWith_def suffix_to_prefix
      STATIC_ASSETS_def)

lemma not_api_logo: "\<not> isAPIRequest (url logo_request)"
  by (simp add: isAPIRequest_def logo_request_def startsWith_def API_ENDPOINTS_def
      str_includes_def sublist_code)

lemma route_logo_request: "route logo_request = Some IMAGE"
  by (simp add: route_def image_logo not_static_logo not_api_logo)
     (simp add: logo_request_def startsWith_def)

lemma mixed_all:
  "isAPIRequest (url mixed_request) \<and> isStaticAsset (url mixed_request) \<and> isImageRequest (url mixed_request)"
  by (simp add: isAPIRequest_def isStaticAsset_def isImageRequest_def mixed_request_def endsWith_def suffix_to_prefix
      str_includes_def sublist_code)

text \<open>
  C8. Every request whose URL starts with \<^verbatim>\<open>http\<close> is routed to exactly one strategy:
  api before static before image, the first test that holds wins, and a request
  that passes none of the three tests is dynamic. The listener answers with that
  strategy's handler.
\<close>

theorem route_total_precedence:
  assumes "startsWith (href (url request)) ''http''"
  shows "(\<exists>!c. route request = Some c) \<and>
         (isAPIRequest (url request) \<longrightarrow> route request = Some API) \<and>
         (\<not> isAPIRequest (url request) \<and> isStaticAsset (url request)
            \<longrightarrow> route request = Some STATIC) \<and>
         (\<not> isAPIRequest (url request) \<and> \<not> isStaticAsset (url request) \<and>
          isImageRequest (url request) \<longrightarrow> route request = Some IMAGE) \<and>
         (\<not> isAPIRequest (url request) \<and> \<not> isStaticAsset (url request) \<and>
          \<not> isImageRequest (url request) \<longrightarrow> route request = Some DYNAMIC) \<and>
         (\<forall>c. route request = Some c \<longrightarrow>
              fetch_listener e s request = Some (respond c e s request))"
  using assms by (simp add: route_def fetch_listener_def)

theorem route_total_precedence_witness:
  "startsWith (href (url mixed_request)) ''http'' \<and> isAPIRequest (url mixed_request) \<and>
   isStaticAsset (url mixed_request) \<and> isImageRequest (url mixed_request) \<and>
   route mixed_request = Some API \<and>
   fetch_listener offline empty_storage mixed_request
     = Some (handleAPIRequest offline empty_storage mixed_request) \<and>
   route script_request = Some STATIC \<and> route logo_request = Some IMAGE \<and>
   route page_request = Some DYNAMIC"
proof -
  have h1: "startsWith (href (url mixed_request)) ''http''"
    by (simp add: mixed_request_def startsWith_def)
  have h2: "startsWith (href (url script_request)) ''http''"
    by (simp add: script_request_def startsWith_def)
  have h3: "startsWith (href (url logo_request)) ''http''"
    by (simp add: logo_request_def startsWith_def)
  have h4: "startsWith (href (url page_request)) ''http''"
    by (simp add: page_request_def startsWith_def)
  have s2: "\<not> isAPIRequest (url script_request) \<and> isStaticAsset (url script_request)"
    by (simp add: isAPIRequest_def isStaticAsset_def script_request_def startsWith_def
        API_ENDPOINTS_def STATIC_ASSETS_def str_includes_def sublist_code)
  show ?thesis
    using route_total_precedence [OF h1, of offline empty_storage]
      route_total_precedence [OF h2, of offline empty_storage]
      route_total_precedence [OF h3, of offline empty_storage]
      route_total_precedence [OF h4, of offline empty_storage]
      h1 mixed_all s2 image_logo not_static_logo not_api_logo
      not_image_page not_static_page not_api_page
    by simp
qed


lemma handleAPIRequest_writes:
  assumes "handleAPIRequest e s request = Inr out"
  shows "cache_match (storage out) n k = cache_match s n k \<or>
     (n = API_CACHE_NAME \<and> k = href (url request) \<and>
      (\<exists>r. fetch e (href (url request)) = Some r \<and> ok r \<and>
           cache_match (storage out) n k = Some (stamp (Date_now e) r)))"
proof -
  obtain s1 where o: "caches_open s API_CACHE_NAME = Inr s1"
    using assms by (cases "caches_open s API_CACHE_NAME") (simp_all add: handleAPIRequest_def)
  have m: "\<And>n k. cache_match s1 n k = cache_match s n k"
    by (rule cache_match_open [OF o])
  show ?thesis
    using assms o
    by (auto simp: handleAPIRequest_def Let_def m cache_match_put_request
        cache_match_request_def split: option.splits if_splits)
qed

lemma handleImageRequest_writes:
  assumes "handleImageRequest e s request = Inr out"
  shows "cache_match (storage out) n k = cache_match s n k \<or>
     (n = DYNAMIC_CACHE_NAME \<and> k = href (url request) \<and>
      (\<exists>r. fetch e (href (url request)) = Some r \<and> ok r \<and>
           cache_match (storage out) n k = Some (stamp (Date_now e) r)))"
proof -
  obtain s1 where o: "caches_open s DYNAMIC_CACHE_NAME = Inr s1"
    using assms by (cases "caches_open s DYNAMIC_CACHE_NAME") (simp_all add: handleImageRequest_def)
  have m: "\<And>n k. cache_match s1 n k = cache_match s n k"
    by (rule cache_match_open [OF o])
  show ?thesis
    using assms o
    by (auto simp: handleImageRequest_def Let_def m cache_match_put_request
        cache_match_request_def split: option.splits if_splits)
qed

lemma handleStaticAsset_writes:
  assumes "handleStaticAsset e s request = Inr out"
  shows "cache_match (storage out) n k = cache_match s n k \<or>
     (n = STATIC_CACHE_NAME \<and> k = href (url request) \<and>
      (\<exists>r. fetch e (href (url request)) = Some r \<and> ok r \<and>
           cache_match (storage out) n k = Some r))"
proof -
  obtain s1 where o: "caches_open s STATIC_CACHE_NAME = Inr s1"
    using assms by (cases "caches_open s STATIC_CACHE_NAME") (simp_all add: handleStaticAsset_def)
  have m: "\<And>n k. cache_match s1 n k = cache_match s n k"
    by (rule cache_match_open [OF o])
  show ?thesis
    using assms o
    by (auto simp: handleStaticAsset_def Let_def m cache_match_put_request
        cache_match_request_def split: option.splits if_splits)
qed

lemma handleDynamicRequest_catch_writes:
  assumes "handleDynamicRequest_catch e s request = Inr out"
  shows "cache_match (storage out) n k = cache_match s n k"
proof -
  obtain s1 where o: "caches_open s DYNAMIC_CACHE_NAME = Inr s1"
    using assms by (cases "caches_open s DYNAMIC_CACHE_NAME") (simp_all add: handleDynamicRequest_catch_def)
  have m: "\<And>n k. cache_match s1 n k = cache_match s n k"
    by (rule cache_match_open [OF o])
  show ?thesis
    using assms o
    by (auto simp: handleDynamicRequest_catch_def m cache_match_open cache_match_request_def
        split: option.splits if_splits sum.splits)
qed

lemma handleDynamicRequest_writes:
  assumes "handleDynamicRequest e s request = Inr out"
  shows "cache_match (storage out) n k = cache_match s n k \<or>
     (n = DYNAMIC_CACHE_NAME \<and> k = href (url request) \<and>
      (\<exists>r. fetch e (href (url request)) = Some r \<and> ok r \<and>
           cache_match (storage out) n k = Some r))"
proof (cases "fetch e (href (url request))")
  case None
  then show ?thesis
    using assms handleDynamicRequest_catch_writes [of e s request out n k]
    by (simp add: handleDynamicRequest_def)
next
  case (Some r)
  show ?thesis
  proof (cases "ok r")
    case False
    with Some assms show ?thesis
      by (auto simp: handleDynamicRequest_def)
  next
    case True
    show ?thesis
    proof (cases "caches_open s DYNAMIC_CACHE_NAME")
      case (Inl err)
      with Some True assms show ?thesis
        using handleDynamicRequest_catch_writes [of e s request out n k]
        by (simp add: handleDynamicRequest_def)
    next
      case (Inr s1)
      have m: "\<And>n k. cache_match s1 n k = cache_match s n k"
        by (rule cache_match_open [OF Inr])
      from Some True Inr assms show ?thesis
        by (auto simp: handleDynamicRequest_def m cache_match_put_request split: if_splits)
    qed
  qed
qed

lemma respond_writes:
  assumes "respond st e s request = Inr out"
  shows "cache_match (storage out) n k = cache_match s n k \<or>
     (k = href (url request) \<and>
      (\<exists>r. fetch e (href (url request)) = Some r \<and> ok r \<and>
           (cache_match (storage out) n k = Some r \<or>
            cache_match (storage out) n k = Some (stamp (Date_now e) r))))"
proof (cases st)
  case API
  with assms handleAPIRequest_writes [of e s request out n k] show ?thesis by auto
next
  case STATIC
  with assms handleStaticAsset_writes [of e s request out n k] show ?thesis by auto
next
  case IMAGE
  with assms handleImageRequest_writes [of e s request out n k] show ?thesis by auto
next
  case DYNAMIC
  with assms handleDynamicRequest_writes [of e s request out n k] show ?thesis by auto
qed




lemma handleImageRequest_logo:
  "handleImageRequest image_server empty_storage logo_request
     = Inr \<lparr>returned = Some logo_payload, storage = logo_cached, detached = []\<rparr>"
  by (simp add: handleImageRequest_def caches_open_def empty_storage_def cache_match_def
      cache_match_request_def cache_put_request_def entries_def image_server_def
      logo_payload_def ok_def cache_put_def logo_cached_def logo_request_def Let_def
      put_refused_def is_http_url_def startsWith_def vary_star_def headers_get_def
      stamp_def headers_set_def)

lemma handleDynamicRequest_page_after_logo:
  "handleDynamicRequest online logo_cached page_request
     = Inr \<lparr>returned = Some price_payload, storage = both_cached, detached = []\<rparr>"
proof -
  have okp: "ok price_payload" by (simp add: price_payload_def ok_def)
  have acc: "\<not> put_refused ''https://monitor.example/about'' price_payload"
    by (simp add: put_refused_def is_http_url_def startsWith_def price_payload_def
        vary_star_def headers_get_def)
  show ?thesis
    using acc
    by (simp add: handleDynamicRequest_def online_def okp caches_open_def logo_cached_def
        cache_put_request_def cache_put_def entries_def page_request_def both_cached_def)
qed

section \<open>The periodic sweep\<close>

lemma swept_idem: "swept now (swept now x) = swept now x"
  by (simp add: swept_def split: option.splits)

lemma swept_None: "swept now None = None"
  by (simp add: swept_def)

lemma cleanup_entry_match:
  "cache_match (cleanup_entry now n k s) n' k' =
     (if n' = n \<and> k' = k then swept now (cache_match s n k) else cache_match s n' k')"
  by (simp add: cleanup_entry_def swept_def cache_match_delete split: option.splits)

lemma cleanup_fold_match:
  "cache_match (fold (cleanup_entry now n) ks s) n' k' =
     (if n' = n \<and> k' \<in> set ks then swept now (cache_match s n k') else cache_match s n' k')"
proof (induction ks arbitrary: s)
  case Nil
  then show ?case by simp
next
  case (Cons k ks)
  show ?case
    by (auto simp: Cons.IH cleanup_entry_match swept_idem)
qed

lemma cache_keys_match: "k \<in> set (cache_keys s n) \<longleftrightarrow> cache_match s n k \<noteq> None"
  by (simp add: cache_keys_def cache_match_def map_of_eq_None_iff)

lemma cleanup_cache_match:
  "cache_match (cleanup_cache now s n) n' k =
     (if n' = n then swept now (cache_match s n k) else cache_match s n' k)"
proof (cases "cache_match s n k")
  case None
  then show ?thesis
    by (simp add: cleanup_cache_def cleanup_fold_match cache_keys_match swept_None)
next
  case (Some r)
  then show ?thesis
    by (simp add: cleanup_cache_def cleanup_fold_match cache_keys_match)
qed

lemma available_cleanup_entry: "available (cleanup_entry now n k s) = available s"
  by (simp add: cleanup_entry_def available_delete split: option.splits)

lemma available_cleanup_fold: "available (fold (cleanup_entry now n) ks s) = available s"
  by (induction ks arbitrary: s) (simp_all add: available_cleanup_entry)

lemma available_cleanup_cache: "available (cleanup_cache now s n) = available s"
  by (simp add: cleanup_cache_def available_cleanup_fold)

lemma cleanup_loop_match:
  "available s \<Longrightarrow>
   cache_match (cleanup_loop now s names) n k =
     (if n \<in> set names then swept now (cache_match s n k) else cache_match s n k)"
proof (induction names arbitrary: s)
  case Nil
  then show ?case by simp
next
  case (Cons name names)
  obtain s1 where o: "caches_open s name = Inr s1"
    using caches_open_available [OF Cons.prems] by blast
  have a: "available (cleanup_cache now s1 name)"
    using Cons.prems available_open [OF o] by (simp add: available_cleanup_cache)
  have m: "\<And>n k. cache_match s1 n k = cache_match s n k"
    by (rule cache_match_open [OF o])
  show ?case
    by (auto simp: o Cons.IH [OF a] cleanup_cache_match m swept_idem)
qed

lemma periodic_cleanup_match:
  "available s \<Longrightarrow>
   cache_match (periodic_cleanup now s) n k =
     (if n = API_CACHE_NAME \<or> n = DYNAMIC_CACHE_NAME then swept now (cache_match s n k)
      else cache_match s n k)"
  using cleanup_loop_match [of s now "[API_CACHE_NAME, DYNAMIC_CACHE_NAME]" n k]
  by (simp add: periodic_cleanup_def del: cleanup_loop.simps)



lemma available_prefetch_one: "available (prefetch_one e u s) = available s"
  by (simp add: prefetch_one_def available_put split: option.splits)

lemma available_prefetch_fold: "available (fold (prefetch_one e) us s) = available s"
  by (induction us arbitrary: s) (simp_all add: available_prefetch_one)












text \<open>
  C1. The sweep tests the dynamic partition against the api maximum of five minutes. An
  image entry filed in the dynamic partition ten minutes before the sweep is younger
  than the dynamic maximum of one hour, and the sweep removes it.
\<close>

theorem sweep_removes_young_dynamic_entry:
  "handleImageRequest image_server empty_storage logo_request
     = Inr \<lparr>returned = Some logo_payload, storage = logo_cached, detached = []\<rparr> \<and>
   cache_match logo_cached DYNAMIC_CACHE_NAME (href (url logo_request))
     = Some (stamp 1700000000000 logo_payload) \<and>
   \<not> isCacheExpired 1700000600000 (stamp 1700000000000 logo_payload) CACHE_DURATIONS_dynamic \<and>
   cache_match (periodic_cleanup 1700000600000 logo_cached) DYNAMIC_CACHE_NAME
     (href (url logo_request)) = None"
proof -
  have av: "available logo_cached" by (simp add: logo_cached_def)
  have m: "cache_match logo_cached DYNAMIC_CACHE_NAME (href (url logo_request))
     = Some (stamp 1700000000000 logo_payload)"
    by (simp add: logo_cached_def cache_match_def entries_def logo_request_def)
  note h = handleImageRequest_logo
  have y: "\<not> isCacheExpired 1700000600000 (stamp 1700000000000 logo_payload) CACHE_DURATIONS_dynamic"
    by (simp add: isCacheExpired_stamp CACHE_DURATIONS_dynamic_def)
  have x: "isCacheExpired 1700000600000 (stamp 1700000000000 logo_payload) CACHE_DURATIONS_api"
    by (simp add: isCacheExpired_stamp CACHE_DURATIONS_api_def)
  have "cache_match (periodic_cleanup 1700000600000 logo_cached) DYNAMIC_CACHE_NAME
     (href (url logo_request)) = None"
    by (simp add: periodic_cleanup_match [OF av] m swept_def x)
  with h m y show ?thesis by simp
qed


section \<open>The api handler with a cached entry\<close>

lemma stale_api_storage_match:
  "cache_match stale_api_storage API_CACHE_NAME (href (url price_request))
     = Some (stamp 1699999000000 old_price_payload)"
  by (simp add: stale_api_storage_def cache_match_def entries_def price_request_def)

lemma fresh_api_storage_match:
  "cache_match fresh_api_storage API_CACHE_NAME (href (url price_request))
     = Some (stamp 1699999900000 old_price_payload)"
  by (simp add: fresh_api_storage_def cache_match_def entries_def price_request_def)

lemma stale_entry_expired:
  "isCacheExpired (Date_now online) (stamp 1699999000000 old_price_payload) CACHE_DURATIONS_api"
  by (simp add: isCacheExpired_stamp online_def CACHE_DURATIONS_api_def)

lemma fresh_entry_not_expired:
  "\<not> isCacheExpired (Date_now online) (stamp 1699999900000 old_price_payload) CACHE_DURATIONS_api"
  by (simp add: isCacheExpired_stamp online_def CACHE_DURATIONS_api_def)

lemma payloads_differ: "price_payload \<noteq> stamp 1699999000000 old_price_payload"
  by (simp add: price_payload_def old_price_payload_def stamp_def)

lemma price_payload_accepted: "\<not> put_refused (href (url price_request)) price_payload"
  by (simp add: put_refused_def is_http_url_def startsWith_def price_request_def
      price_payload_def vary_star_def headers_get_def)

lemma price_request_get: "method_name price_request = ''GET''"
  by (simp add: price_request_def)

text \<open>
  C2, as stated, fails: with a stale entry in the api partition and the network
  reachable, the handler returns the network's response, not the cached payload, files
  the stamped copy itself, and starts no task.
\<close>

theorem stale_api_entry_counterexample:
  "cache_match stale_api_storage API_CACHE_NAME (href (url price_request))
     = Some (stamp 1699999000000 old_price_payload) \<and>
   isCacheExpired (Date_now online) (stamp 1699999000000 old_price_payload) CACHE_DURATIONS_api \<and>
   handleAPIRequest online stale_api_storage price_request
     = Inr \<lparr>returned = Some price_payload, storage = refreshed_api_storage, detached = []\<rparr> \<and>
   price_payload \<noteq> stamp 1699999000000 old_price_payload"
proof -
  have o: "caches_open stale_api_storage API_CACHE_NAME = Inr stale_api_storage"
    by (simp add: caches_open_def stale_api_storage_def)
  have p: "cache_put_request stale_api_storage API_CACHE_NAME price_request
             (stamp 1700000000000 price_payload) = refreshed_api_storage"
    using price_payload_accepted
    by (simp add: cache_put_request_def price_request_get cache_put_def put_refused_stamp)
       (simp add: stale_api_storage_def refreshed_api_storage_def entries_def price_request_def)
  have okp: "ok price_payload"
    by (simp add: price_payload_def ok_def)
  have f: "fetch online (href (url price_request)) = Some price_payload"
    by (simp add: online_def)
  have d: "Date_now online = 1700000000000"
    by (simp add: online_def)
  have "handleAPIRequest online stale_api_storage price_request
     = Inr \<lparr>returned = Some price_payload, storage = refreshed_api_storage, detached = []\<rparr>"
    using stale_entry_expired
    by (simp add: handleAPIRequest_def o cache_match_request_def price_request_get
        stale_api_storage_match Let_def f okp)
       (simp add: d p)
  then show ?thesis
    using stale_api_storage_match stale_entry_expired payloads_differ by simp
qed

text \<open>
  C2, amended. Let the backing store open and let \<^verbatim>\<open>cache.match\<close> find an entry for the
  api-class request. If the entry is stale the handler awaits the fetch and starts no
  task. When the fetch resolves it returns the network's response, and it files a copy
  stamped with the current time in place of the entry exactly when the response is ok
  and the Cache API accepts it (an http or https URL, a status other than 206, no
  \<^verbatim>\<open>*\<close> in \<^verbatim>\<open>Vary\<close>); no other entry changes. When the fetch fails it returns the
  stale entry and changes nothing. If the entry is fresh the handler returns it with
  the storage untouched and starts \<open>updateAPICache\<close> without awaiting it; that task,
  whenever it runs, fetches the request again and files a stamped copy under the same
  condition, and changes nothing otherwise.
\<close>

theorem api_cached_entry_behaviour:
  assumes "available s"
    and "cache_match_request s API_CACHE_NAME request = Some c"
  shows "\<exists>out. handleAPIRequest e s request = Inr out \<and>
           (isCacheExpired (Date_now e) c CACHE_DURATIONS_api \<longrightarrow>
              detached out = [] \<and>
              (case fetch e (href (url request)) of
                 Some r \<Rightarrow>
                   returned out = Some r \<and>
                   (\<forall>n k. cache_match (storage out) n k =
                      (if n = API_CACHE_NAME \<and> k = href (url request) \<and> ok r \<and>
                          \<not> put_refused (href (url request)) r
                       then Some (stamp (Date_now e) r) else cache_match s n k))
               | None \<Rightarrow>
                   returned out = Some c \<and>
                   (\<forall>n k. cache_match (storage out) n k = cache_match s n k))) \<and>
           (\<not> isCacheExpired (Date_now e) c CACHE_DURATIONS_api \<longrightarrow>
              returned out = Some c \<and> detached out = [UpdateAPICache request] \<and>
              (\<forall>n k. cache_match (storage out) n k = cache_match s n k) \<and>
              (\<forall>e' s' n k.
                 cache_match (run_task e' s' (UpdateAPICache request)) n k =
                   (case fetch e' (href (url request)) of
                      Some r \<Rightarrow>
                        if n = API_CACHE_NAME \<and> k = href (url request) \<and> ok r \<and>
                           \<not> put_refused (href (url request)) r
                        then Some (stamp (Date_now e') r) else cache_match s' n k
                    | None \<Rightarrow> cache_match s' n k)))"
proof -
  obtain s1 where o: "caches_open s API_CACHE_NAME = Inr s1"
    using caches_open_available [OF assms(1)] by blast
  have m: "\<And>n k. cache_match s1 n k = cache_match s n k"
    by (rule cache_match_open [OF o])
  have g: "method_name request = ''GET''"
    using assms(2) by (simp add: cache_match_request_def split: if_splits)
  have c: "cache_match s API_CACHE_NAME (href (url request)) = Some c"
    using assms(2) g by (simp add: cache_match_request_def)
  have t: "\<And>e' s' n k.
     cache_match (run_task e' s' (UpdateAPICache request)) n k =
       (case fetch e' (href (url request)) of
          Some r \<Rightarrow>
            if n = API_CACHE_NAME \<and> k = href (url request) \<and> ok r \<and>
               \<not> put_refused (href (url request)) r
            then Some (stamp (Date_now e') r) else cache_match s' n k
        | None \<Rightarrow> cache_match s' n k)"
    by (simp add: updateAPICache_def cache_match_put_request put_refused_stamp g
        split: option.splits)
  show ?thesis
    using c t
    by (simp add: handleAPIRequest_def o m g Let_def cache_match_request_def
        cache_match_put_request put_refused_stamp split: option.splits)
qed

theorem api_cached_entry_behaviour_witness:
  "available stale_api_storage \<and>
   cache_match_request stale_api_storage API_CACHE_NAME price_request
     = Some (stamp 1699999000000 old_price_payload) \<and>
   isCacheExpired (Date_now online) (stamp 1699999000000 old_price_payload) CACHE_DURATIONS_api \<and>
   (\<exists>out. handleAPIRequest online stale_api_storage price_request = Inr out \<and>
      detached out = [] \<and> returned out = Some price_payload \<and>
      cache_match (storage out) API_CACHE_NAME (href (url price_request))
        = Some (stamp 1700000000000 price_payload)) \<and>
   (\<exists>out. handleAPIRequest offline stale_api_storage price_request = Inr out \<and>
      detached out = [] \<and> returned out = Some (stamp 1699999000000 old_price_payload)) \<and>
   available fresh_api_storage \<and>
   cache_match_request fresh_api_storage API_CACHE_NAME price_request
     = Some (stamp 1699999900000 old_price_payload) \<and>
   \<not> isCacheExpired (Date_now online) (stamp 1699999900000 old_price_payload) CACHE_DURATIONS_api \<and>
   (\<exists>out. handleAPIRequest online fresh_api_storage price_request = Inr out \<and>
      returned out = Some (stamp 1699999900000 old_price_payload) \<and>
      detached out = [UpdateAPICache price_request] \<and>
      cache_match (run_task online (storage out) (UpdateAPICache price_request)) API_CACHE_NAME
        (href (url price_request)) = Some (stamp 1700000000000 price_payload))"
proof -
  have a: "available stale_api_storage" by (simp add: stale_api_storage_def)
  have b: "available fresh_api_storage" by (simp add: fresh_api_storage_def)
  have ms: "cache_match_request stale_api_storage API_CACHE_NAME price_request
     = Some (stamp 1699999000000 old_price_payload)"
    by (simp add: cache_match_request_def price_request_get stale_api_storage_match)
  have mf: "cache_match_request fresh_api_storage API_CACHE_NAME price_request
     = Some (stamp 1699999900000 old_price_payload)"
    by (simp add: cache_match_request_def price_request_get fresh_api_storage_match)
  have okp: "ok price_payload" by (simp add: price_payload_def ok_def)
  have f: "fetch online (href (url price_request)) = Some price_payload"
    by (simp add: online_def)
  have g: "fetch offline (href (url price_request)) = None"
    by (simp add: offline_def)
  have d: "Date_now online = 1700000000000" "Date_now offline = 1700000000000"
    by (simp_all add: online_def offline_def)
  have x: "isCacheExpired 1700000000000 (stamp 1699999000000 old_price_payload) CACHE_DURATIONS_api"
    using stale_entry_expired by (simp add: d)
  have y: "\<not> isCacheExpired 1700000000000 (stamp 1699999900000 old_price_payload) CACHE_DURATIONS_api"
    using fresh_entry_not_expired by (simp add: d)
  show ?thesis
    using api_cached_entry_behaviour [OF a ms, of online]
      api_cached_entry_behaviour [OF a ms, of offline]
      api_cached_entry_behaviour [OF b mf, of online]
      a b ms mf x y
    by (auto simp: f g d okp price_payload_accepted)
qed

section \<open>Requests that get no response\<close>

lemma route_help_request: "route help_request = Some STATIC"
  by (simp add: route_def help_request_def startsWith_def isAPIRequest_def isStaticAsset_def
      STATIC_ASSETS_def API_ENDPOINTS_def str_includes_def sublist_code endsWith_def
      suffix_to_prefix)

text \<open>
  C3. A document request for a static asset, with the network down and nothing cached,
  makes the static handler return the result of \<^verbatim>\<open>cache.match('/index.html')\<close>, which
  is \<^verbatim>\<open>undefined\<close>: the handler resolves to no response. The dynamic handler does
  the same for a document request.
\<close>

theorem document_fallback_missing:
  "route help_request = Some STATIC \<and>
   fetch_listener offline empty_storage help_request
     = Some (Inr \<lparr>returned = None,
                  storage = \<lparr>available = True, caches = [(STATIC_CACHE_NAME, [])]\<rparr>,
                  detached = []\<rparr>) \<and>
   route page_request = Some DYNAMIC \<and>
   fetch_listener offline empty_storage page_request
     = Some (Inr \<lparr>returned = None,
                  storage = \<lparr>available = True,
                             caches = [(DYNAMIC_CACHE_NAME, []), (STATIC_CACHE_NAME, [])]\<rparr>,
                  detached = []\<rparr>)"
proof -
  have r: "resolve offline ''/index.html'' = Some ''https://monitor.example/index.html''"
    by (simp add: offline_def resolve_at_def is_http_url_def startsWith_def)
  have f: "\<And>u. fetch offline u = None"
    by (simp add: offline_def)
  have a: "handleStaticAsset offline empty_storage help_request
     = Inr \<lparr>returned = None,
            storage = \<lparr>available = True, caches = [(STATIC_CACHE_NAME, [])]\<rparr>,
            detached = []\<rparr>"
    by (simp add: handleStaticAsset_def caches_open_def empty_storage_def cache_match_def
        cache_match_request_def entries_def r f help_request_def)
  have n: "DYNAMIC_CACHE_NAME \<noteq> STATIC_CACHE_NAME"
    by (simp add: DYNAMIC_CACHE_NAME_def STATIC_CACHE_NAME_def)
  have b: "handleDynamicRequest offline empty_storage page_request
     = Inr \<lparr>returned = None,
            storage = \<lparr>available = True,
                       caches = [(DYNAMIC_CACHE_NAME, []), (STATIC_CACHE_NAME, [])]\<rparr>,
            detached = []\<rparr>"
    using n
    by (simp add: handleDynamicRequest_def handleDynamicRequest_catch_def caches_open_def
        empty_storage_def cache_match_def cache_match_request_def entries_def r f
        page_request_def)
  show ?thesis
    by (simp add: fetch_listener_def route_help_request route_page_request a b)
qed

text \<open>
  C4, as stated, fails: with the backing store unavailable the api handler rejects,
  although the network would have answered.
\<close>

theorem storage_unavailable_counterexample:
  "\<not> available broken_storage \<and>
   fetch online (href (url price_request)) = Some price_payload \<and>
   route price_request = Some API \<and>
   fetch_listener online broken_storage price_request = Some (Inl StorageUnavailable)"
  by (simp add: fetch_listener_def route_price_request handleAPIRequest_def caches_open_def
      broken_storage_def online_def)

text \<open>
  C4, amended. With the backing store unavailable no handler falls back to the network.
  The api, static and image handlers reject before any fetch. The dynamic handler
  fetches first and rejects as well, when the fetch fails and when the response is
  ok; a response that is not ok it returns, without opening the store.
\<close>

theorem storage_unavailable_rejects:
  assumes "\<not> available s"
  shows "respond st e s request =
           (case fetch e (href (url request)) of
              None \<Rightarrow> Inl StorageUnavailable
            | Some r \<Rightarrow>
                if st = DYNAMIC \<and> \<not> ok r
                then Inr \<lparr>returned = Some r, storage = s, detached = []\<rparr>
                else Inl StorageUnavailable)"
proof -
  have o: "\<And>n. caches_open s n = Inl StorageUnavailable"
    using assms by (rule caches_open_unavailable)
  show ?thesis
    by (cases st)
       (simp_all add: handleAPIRequest_def handleStaticAsset_def handleImageRequest_def
          handleDynamicRequest_def handleDynamicRequest_catch_def o split: option.splits)
qed

theorem storage_unavailable_rejects_witness:
  "\<not> available broken_storage \<and>
   respond API online broken_storage price_request = Inl StorageUnavailable \<and>
   respond STATIC online broken_storage script_request = Inl StorageUnavailable \<and>
   respond IMAGE online broken_storage logo_request = Inl StorageUnavailable \<and>
   respond DYNAMIC online broken_storage page_request = Inl StorageUnavailable \<and>
   respond DYNAMIC offline broken_storage page_request = Inl StorageUnavailable \<and>
   respond DYNAMIC failing_server broken_storage page_request
     = Inr \<lparr>returned = Some server_error, storage = broken_storage, detached = []\<rparr>"
proof -
  have a: "\<not> available broken_storage" by (simp add: broken_storage_def)
  have okp: "ok price_payload" by (simp add: price_payload_def ok_def)
  have nok: "\<not> ok server_error" by (simp add: server_error_def ok_def)
  show ?thesis
    using storage_unavailable_rejects [OF a, of API online price_request]
      storage_unavailable_rejects [OF a, of STATIC online script_request]
      storage_unavailable_rejects [OF a, of IMAGE online logo_request]
      storage_unavailable_rejects [OF a, of DYNAMIC online page_request]
      storage_unavailable_rejects [OF a, of DYNAMIC offline page_request]
      storage_unavailable_rejects [OF a, of DYNAMIC failing_server page_request]
      a
    by (simp add: online_def offline_def failing_server_def okp nok)
qed


section \<open>The update command and the partitions\<close>

lemma addAll_store_match:
  "n \<noteq> name \<Longrightarrow> cache_match (addAll_store e name u s) n k = cache_match s n k"
  by (simp add: addAll_store_def cache_match_put split: option.splits)

lemma addAll_fold_match:
  "n \<noteq> name \<Longrightarrow> cache_match (fold (addAll_store e name) us s) n k = cache_match s n k"
  by (induction us arbitrary: s) (simp_all add: addAll_store_match)

lemma handleCacheUpdate_refused:
  assumes "u \<in> set (urls payload)" and "addAll_refuses e u"
  shows "(\<exists>err. fst (handleCacheUpdate e s payload) = Cache_update_failed err) \<and>
         (\<forall>n k. cache_match (snd (handleCacheUpdate e s payload)) n k = cache_match s n k)"
proof (cases "caches_open s (cacheName payload)")
  case (Inl err)
  then show ?thesis by (simp add: handleCacheUpdate_def)
next
  case (Inr s1)
  have m: "\<And>n k. cache_match s1 n k = cache_match s n k"
    by (rule cache_match_open [OF Inr])
  have "list_ex (addAll_refuses e) (urls payload)"
    using assms by (auto simp: list_ex_iff)
  then show ?thesis
    by (simp add: handleCacheUpdate_def Inr cache_addAll_def m)
qed

lemma handleCacheUpdate_changes:
  assumes "cache_match (snd (handleCacheUpdate e s payload)) n k \<noteq> cache_match s n k"
  shows "fst (handleCacheUpdate e s payload)
           = Cache_updated (cacheName payload) (length (urls payload)) \<and>
         n = cacheName payload \<and> \<not> list_ex (addAll_refuses e) (urls payload)"
proof (cases "caches_open s (cacheName payload)")
  case (Inl err)
  with assms show ?thesis by (simp add: handleCacheUpdate_def)
next
  case (Inr s1)
  have m: "\<And>n k. cache_match s1 n k = cache_match s n k"
    by (rule cache_match_open [OF Inr])
  show ?thesis
  proof (cases "cache_addAll e s1 (cacheName payload) (urls payload)")
    case (Inl err)
    with assms Inr show ?thesis by (simp add: handleCacheUpdate_def m)
  next
    case s2: (Inr s2)
    then have nl: "\<not> list_ex (addAll_refuses e) (urls payload)"
      and f: "s2 = fold (addAll_store e (cacheName payload)) (urls payload) s1"
      by (auto simp: cache_addAll_def split: if_splits)
    have "n = cacheName payload"
    proof (rule ccontr)
      assume "n \<noteq> cacheName payload"
      then have "cache_match s2 n k = cache_match s1 n k"
        by (simp add: f addAll_fold_match)
      with assms Inr s2 show False by (simp add: handleCacheUpdate_def m)
    qed
    with Inr s2 nl show ?thesis by (simp add: handleCacheUpdate_def)
  qed
qed

lemma resolve_flaky_global:
  "resolve flaky ''https://api.coingecko.com/api/v3/global''
     = Some ''https://api.coingecko.com/api/v3/global''"
  by (simp add: flaky_def resolve_at_def is_http_url_def startsWith_def)

lemma resolve_flaky_list:
  "resolve flaky ''https://api.coingecko.com/api/v3/coins/list''
     = Some ''https://api.coingecko.com/api/v3/coins/list''"
  by (simp add: flaky_def resolve_at_def is_http_url_def startsWith_def)

lemma flaky_refuses_global: "addAll_refuses flaky ''https://api.coingecko.com/api/v3/global''"
  by (simp add: addAll_refuses_def resolve_flaky_global) (simp add: flaky_def)

lemma flaky_accepts_list:
  "\<not> addAll_refuses flaky ''https://api.coingecko.com/api/v3/coins/list''"
  by (simp add: addAll_refuses_def resolve_flaky_list)
     (simp add: flaky_def is_http_url_def startsWith_def price_payload_def ok_def vary_star_def
        headers_get_def)

lemma update_both_result:
  "handleCacheUpdate flaky empty_storage update_both
     = (Cache_update_failed TypeError, \<lparr>available = True, caches = [(API_CACHE_NAME, [])]\<rparr>)"
  by (simp add: handleCacheUpdate_def caches_open_def empty_storage_def update_both_def
      cache_addAll_def flaky_refuses_global)

lemma update_list_result:
  "handleCacheUpdate flaky empty_storage update_list
     = (Cache_updated API_CACHE_NAME 1,
        cache_put \<lparr>available = True, caches = [(API_CACHE_NAME, [])]\<rparr> API_CACHE_NAME
          ''https://api.coingecko.com/api/v3/coins/list'' price_payload)"
  by (simp add: handleCacheUpdate_def caches_open_def empty_storage_def update_list_def
      cache_addAll_def flaky_accepts_list addAll_store_def resolve_flaky_list)
     (simp add: flaky_def)

lemma list_accepted:
  "\<not> put_refused ''https://api.coingecko.com/api/v3/coins/list'' price_payload"
  by (simp add: put_refused_def is_http_url_def startsWith_def price_payload_def vary_star_def
      headers_get_def)

text \<open>
  C5, as stated, fails: in a batch of two URLs of which the first cannot be fetched,
  the second, which the network would answer, is not stored either. Alone it is stored.
\<close>

theorem cache_update_counterexample:
  "fetch flaky ''https://api.coingecko.com/api/v3/coins/list'' = Some price_payload \<and>
   ok price_payload \<and>
   handleCacheUpdate flaky empty_storage update_both
     = (Cache_update_failed TypeError, \<lparr>available = True, caches = [(API_CACHE_NAME, [])]\<rparr>) \<and>
   cache_match (snd (handleCacheUpdate flaky empty_storage update_both)) API_CACHE_NAME
     ''https://api.coingecko.com/api/v3/coins/list'' = None \<and>
   cache_match (snd (handleCacheUpdate flaky empty_storage update_list)) API_CACHE_NAME
     ''https://api.coingecko.com/api/v3/coins/list'' = Some price_payload"
proof -
  have okp: "ok price_payload" by (simp add: price_payload_def ok_def)
  show ?thesis
    by (simp add: update_both_result update_list_result okp cache_match_put list_accepted)
       (simp add: flaky_def cache_match_def entries_def)
qed

text \<open>
  C5, amended. The update-cache command hands the whole list to \<^verbatim>\<open>cache.addAll\<close> inside
  one \<^verbatim>\<open>try\<close> and writes one console line for the batch. One listed URL that
  \<^verbatim>\<open>cache.addAll\<close> refuses (the string does not parse or is not an http or https URL,
  its fetch fails, or its response is not ok, has status 206 or lists \<^verbatim>\<open>*\<close> in
  \<^verbatim>\<open>Vary\<close>) aborts the batch: the error line is written and no entry of any partition
  changes, so no other URL of the batch is stored. An entry changes only in the named
  partition and only when the success line is written, which requires that no listed URL
  is refused.
\<close>

theorem cache_update_all_or_nothing:
  "(u \<in> set (urls payload) \<and> addAll_refuses e u \<longrightarrow>
      (\<exists>err. fst (handleCacheUpdate e s payload) = Cache_update_failed err) \<and>
      (\<forall>n k. cache_match (snd (handleCacheUpdate e s payload)) n k = cache_match s n k)) \<and>
   (cache_match (snd (handleCacheUpdate e s payload)) n k \<noteq> cache_match s n k \<longrightarrow>
      fst (handleCacheUpdate e s payload)
        = Cache_updated (cacheName payload) (length (urls payload)) \<and>
      n = cacheName payload \<and>
      (\<forall>v \<in> set (urls payload). \<not> addAll_refuses e v))"
proof (intro conjI impI)
  assume a: "u \<in> set (urls payload) \<and> addAll_refuses e u"
  show "\<exists>err. fst (handleCacheUpdate e s payload) = Cache_update_failed err"
    using a handleCacheUpdate_refused [of u payload e s] by blast
  show "\<forall>n k. cache_match (snd (handleCacheUpdate e s payload)) n k = cache_match s n k"
    using a handleCacheUpdate_refused [of u payload e s] by blast
next
  assume c: "cache_match (snd (handleCacheUpdate e s payload)) n k \<noteq> cache_match s n k"
  show "fst (handleCacheUpdate e s payload)
          = Cache_updated (cacheName payload) (length (urls payload))"
    using handleCacheUpdate_changes [OF c] by blast
  show "n = cacheName payload"
    using handleCacheUpdate_changes [OF c] by blast
  show "\<forall>v \<in> set (urls payload). \<not> addAll_refuses e v"
    using handleCacheUpdate_changes [OF c] by (simp add: list_ex_iff)
qed

theorem cache_update_all_or_nothing_witness:
  "urls update_both = [''https://api.coingecko.com/api/v3/global'',
                       ''https://api.coingecko.com/api/v3/coins/list''] \<and>
   resolve flaky ''https://api.coingecko.com/api/v3/global''
     = Some ''https://api.coingecko.com/api/v3/global'' \<and>
   fetch flaky ''https://api.coingecko.com/api/v3/global'' = None \<and>
   addAll_refuses flaky ''https://api.coingecko.com/api/v3/global'' \<and>
   (\<exists>err. fst (handleCacheUpdate flaky empty_storage update_both) = Cache_update_failed err) \<and>
   cache_match (snd (handleCacheUpdate flaky empty_storage update_both)) API_CACHE_NAME
     ''https://api.coingecko.com/api/v3/coins/list''
     = cache_match empty_storage API_CACHE_NAME ''https://api.coingecko.com/api/v3/coins/list'' \<and>
   urls update_list = [''https://api.coingecko.com/api/v3/coins/list''] \<and>
   cache_match (snd (handleCacheUpdate flaky empty_storage update_list)) API_CACHE_NAME
     ''https://api.coingecko.com/api/v3/coins/list''
     \<noteq> cache_match empty_storage API_CACHE_NAME ''https://api.coingecko.com/api/v3/coins/list'' \<and>
   fst (handleCacheUpdate flaky empty_storage update_list) = Cache_updated API_CACHE_NAME 1 \<and>
   \<not> addAll_refuses flaky ''https://api.coingecko.com/api/v3/coins/list''"
proof -
  have l2: "urls update_both = [''https://api.coingecko.com/api/v3/global'',
                       ''https://api.coingecko.com/api/v3/coins/list'']"
    by (simp add: update_both_def)
  have l1: "urls update_list = [''https://api.coingecko.com/api/v3/coins/list'']"
    "cacheName update_list = API_CACHE_NAME"
    by (simp_all add: update_list_def)
  have f2: "fetch flaky ''https://api.coingecko.com/api/v3/global'' = None"
    by (simp add: flaky_def)
  have e: "cache_match empty_storage API_CACHE_NAME ''https://api.coingecko.com/api/v3/coins/list''
             = None"
    by (simp add: cache_match_def entries_def empty_storage_def)
  have c: "cache_match (snd (handleCacheUpdate flaky empty_storage update_list)) API_CACHE_NAME
     ''https://api.coingecko.com/api/v3/coins/list''
     \<noteq> cache_match empty_storage API_CACHE_NAME ''https://api.coingecko.com/api/v3/coins/list''"
    by (simp add: update_list_result cache_match_put list_accepted e)
  have g: "''https://api.coingecko.com/api/v3/global'' \<in> set (urls update_both)"
    by (simp add: l2)
  show ?thesis
    using cache_update_all_or_nothing
            [where u = "''https://api.coingecko.com/api/v3/global''" and payload = update_both
               and e = flaky and s = empty_storage and n = API_CACHE_NAME
               and k = "''https://api.coingecko.com/api/v3/coins/list''"]
      cache_update_all_or_nothing
            [where u = "''https://api.coingecko.com/api/v3/coins/list''" and payload = update_list
               and e = flaky and s = empty_storage and n = API_CACHE_NAME
               and k = "''https://api.coingecko.com/api/v3/coins/list''"]
      g flaky_refuses_global c
    by (simp add: l1 l2 f2 resolve_flaky_global flaky_accepts_list)
qed

text \<open>
  C6, as stated, fails: the image handler files its entry in the dynamic partition,
  where the dynamic handler then files its own; the one partition holds an image-class
  and a dynamic-class entry.
\<close>

theorem image_partition_counterexample:
  "route logo_request = Some IMAGE \<and>
   handleImageRequest image_server empty_storage logo_request
     = Inr \<lparr>returned = Some logo_payload, storage = logo_cached, detached = []\<rparr> \<and>
   route page_request = Some DYNAMIC \<and>
   handleDynamicRequest online logo_cached page_request
     = Inr \<lparr>returned = Some price_payload, storage = both_cached, detached = []\<rparr> \<and>
   cache_match both_cached DYNAMIC_CACHE_NAME (href (url logo_request))
     = Some (stamp 1700000000000 logo_payload) \<and>
   cache_match both_cached DYNAMIC_CACHE_NAME (href (url page_request)) = Some price_payload"
proof -
  note h = handleImageRequest_logo
  note d = handleDynamicRequest_page_after_logo
  have m: "cache_match both_cached DYNAMIC_CACHE_NAME (href (url logo_request))
     = Some (stamp 1700000000000 logo_payload)"
    "cache_match both_cached DYNAMIC_CACHE_NAME (href (url page_request)) = Some price_payload"
    by (simp_all add: both_cached_def cache_match_def entries_def logo_request_def page_request_def)
  show ?thesis
    by (simp add: route_logo_request route_page_request h d m)
qed

text \<open>
  C6, amended. The worker keeps three partitions under pairwise distinct names, and a
  write to one leaves what the others hold. Each handler changes entries of one
  partition only, fixed by the request's class: api in the api partition, static in
  the static partition, image and dynamic both in the dynamic partition; the entry
  changed is the one under the request's URL.
\<close>

theorem handlers_write_one_partition:
  "distinct [STATIC_CACHE_NAME, DYNAMIC_CACHE_NAME, API_CACHE_NAME] \<and>
   (nb \<noteq> na \<longrightarrow> cache_match (cache_put sa na ka r) nb kb = cache_match sa nb kb) \<and>
   (respond st e s request = Inr out \<and> cache_match (storage out) n k \<noteq> cache_match s n k \<longrightarrow>
      n = (case st of API \<Rightarrow> API_CACHE_NAME | STATIC \<Rightarrow> STATIC_CACHE_NAME
           | IMAGE \<Rightarrow> DYNAMIC_CACHE_NAME | DYNAMIC \<Rightarrow> DYNAMIC_CACHE_NAME) \<and>
      k = href (url request))"
proof (intro conjI impI)
  show "distinct [STATIC_CACHE_NAME, DYNAMIC_CACHE_NAME, API_CACHE_NAME]"
    by (simp add: STATIC_CACHE_NAME_def DYNAMIC_CACHE_NAME_def API_CACHE_NAME_def)
next
  assume "nb \<noteq> na"
  then show "cache_match (cache_put sa na ka r) nb kb = cache_match sa nb kb"
    by (simp add: cache_match_put)
next
  assume a: "respond st e s request = Inr out \<and> cache_match (storage out) n k \<noteq> cache_match s n k"
  show "n = (case st of API \<Rightarrow> API_CACHE_NAME | STATIC \<Rightarrow> STATIC_CACHE_NAME
           | IMAGE \<Rightarrow> DYNAMIC_CACHE_NAME | DYNAMIC \<Rightarrow> DYNAMIC_CACHE_NAME)"
  proof (cases st)
    case API
    with a handleAPIRequest_writes [of e s request out n k] show ?thesis by auto
  next
    case STATIC
    with a handleStaticAsset_writes [of e s request out n k] show ?thesis by auto
  next
    case IMAGE
    with a handleImageRequest_writes [of e s request out n k] show ?thesis by auto
  next
    case DYNAMIC
    with a handleDynamicRequest_writes [of e s request out n k] show ?thesis by auto
  qed
next
  assume a: "respond st e s request = Inr out \<and> cache_match (storage out) n k \<noteq> cache_match s n k"
  then show "k = href (url request)"
    using respond_writes [of st e s request out n k] by auto
qed

theorem handlers_write_one_partition_witness:
  "respond IMAGE image_server empty_storage logo_request
     = Inr \<lparr>returned = Some logo_payload, storage = logo_cached, detached = []\<rparr> \<and>
   cache_match logo_cached DYNAMIC_CACHE_NAME (href (url logo_request))
     \<noteq> cache_match empty_storage DYNAMIC_CACHE_NAME (href (url logo_request)) \<and>
   STATIC_CACHE_NAME \<noteq> DYNAMIC_CACHE_NAME \<and>
   cache_match (cache_put empty_storage DYNAMIC_CACHE_NAME (href (url logo_request)) logo_payload)
     STATIC_CACHE_NAME (href (url logo_request))
     = cache_match empty_storage STATIC_CACHE_NAME (href (url logo_request)) \<and>
   DYNAMIC_CACHE_NAME = (case IMAGE of API \<Rightarrow> API_CACHE_NAME | STATIC \<Rightarrow> STATIC_CACHE_NAME
           | IMAGE \<Rightarrow> DYNAMIC_CACHE_NAME | DYNAMIC \<Rightarrow> DYNAMIC_CACHE_NAME)"
proof -
  have h: "respond IMAGE image_server empty_storage logo_request
     = Inr \<lparr>returned = Some logo_payload, storage = logo_cached, detached = []\<rparr>"
    by (simp add: handleImageRequest_logo)
  have m: "cache_match logo_cached DYNAMIC_CACHE_NAME (href (url logo_request))
     \<noteq> cache_match empty_storage DYNAMIC_CACHE_NAME (href (url logo_request))"
    by (simp add: logo_cached_def cache_match_def entries_def logo_request_def empty_storage_def)
  have n: "STATIC_CACHE_NAME \<noteq> DYNAMIC_CACHE_NAME"
    by (simp add: STATIC_CACHE_NAME_def DYNAMIC_CACHE_NAME_def)
  show ?thesis
    using handlers_write_one_partition
            [where nb = STATIC_CACHE_NAME and na = DYNAMIC_CACHE_NAME and sa = empty_storage
               and ka = "href (url logo_request)" and r = logo_payload
               and kb = "href (url logo_request)" and n = DYNAMIC_CACHE_NAME
               and k = "href (url logo_request)" and s = empty_storage
               and st = IMAGE and e = image_server and request = logo_request
               and out = "\<lparr>returned = Some logo_payload, storage = logo_cached, detached = []\<rparr>"]
      h m n
    by simp
qed


end
